theory Spec2Isabelle
  imports Main "HOL-Library.AList" "HOL-Library.Sublist" "HOL-Library.Word"
begin

section \<open>Python values and exceptions\<close>

text \<open>
  The program is dynamically typed: whatever \<^verbatim>\<open>json.load\<close> finds in the preferences
  file flows, unchecked, into the service and the window. The values are therefore the
  values \<^verbatim>\<open>json.load\<close> can produce. A float is kept as its 64 bits, a \<^verbatim>\<open>dict\<close> as an
  association list in insertion order (its keys are distinct in Python).
\<close>

datatype json =
    JNull
  | JBool bool
  | JInt int
  | JFloat "64 word"
  | JStr string
  | JArr "json list"
  | JObj "(string \<times> json) list"

text \<open>Python's truth value of an object, as \<^verbatim>\<open>if x:\<close> and \<^verbatim>\<open>not x\<close> test it.\<close>

fun truthy :: "json \<Rightarrow> bool" where
  "truthy JNull = False"
| "truthy (JBool b) = b"
| "truthy (JInt i) = (i \<noteq> 0)"
| "truthy (JFloat w) = (w \<noteq> 0 \<and> w \<noteq> 0x8000000000000000)"
| "truthy (JStr s) = (s \<noteq> [])"
| "truthy (JArr xs) = (xs \<noteq> [])"
| "truthy (JObj kvs) = (kvs \<noteq> [])"

fun type_name :: "json \<Rightarrow> string" where
  "type_name JNull = ''NoneType''"
| "type_name (JBool b) = ''bool''"
| "type_name (JInt i) = ''int''"
| "type_name (JFloat w) = ''float''"
| "type_name (JStr s) = ''str''"
| "type_name (JArr xs) = ''list''"
| "type_name (JObj kvs) = ''dict''"

text \<open>
  An exception is its class and the text \<^verbatim>\<open>str(e)\<close> gives. \<open>Exception\<close> is the base
  class the service raises; \<open>OSError\<close> stands for the \<^verbatim>\<open>OSError\<close> subclasses other
  than \<^verbatim>\<open>FileNotFoundError\<close> (\<^verbatim>\<open>PermissionError\<close>, \<^verbatim>\<open>IsADirectoryError\<close>, ...);
  \<open>APIError\<close> for what the OpenAI client raises.
\<close>

datatype exn_class =
    Exception
  | FileNotFoundError
  | OSError
  | JSONDecodeError
  | UnicodeDecodeError
  | ValueError
  | AttributeError
  | TypeError
  | APIError

datatype exn = Raise exn_class string

fun exn_class_of :: "exn \<Rightarrow> exn_class" where
  "exn_class_of (Raise c m) = c"

fun str :: "exn \<Rightarrow> string" where
  "str (Raise c m) = m"

definition py_quote :: "string \<Rightarrow> string" where
  "py_quote s = [CHR 0x27] @ s @ [CHR 0x27]"

text \<open>The text of the \<^verbatim>\<open>AttributeError\<close> for \<^verbatim>\<open>v.attr\<close> on a value without it.\<close>

definition no_attribute :: "json \<Rightarrow> string \<Rightarrow> exn" where
  "no_attribute v attr =
     Raise AttributeError
       (py_quote (type_name v) @ '' object has no attribute '' @ py_quote attr)"

text \<open>\<^verbatim>\<open>d.get(key, default)\<close>: only a \<^verbatim>\<open>dict\<close> has the method.\<close>

fun py_get :: "json \<Rightarrow> string \<Rightarrow> json \<Rightarrow> exn + json" where
  "py_get (JObj kvs) key dflt =
     Inr (case map_of kvs key of None \<Rightarrow> dflt | Some v \<Rightarrow> v)"
| "py_get v key dflt = Inl (no_attribute v ''get'')"

text \<open>
  \<^verbatim>\<open>d[key] = value\<close>: on a \<^verbatim>\<open>dict\<close> the key keeps its place or is appended; a list
  wants an integer index, every other value supports no item assignment.
\<close>

fun py_setitem :: "json \<Rightarrow> string \<Rightarrow> json \<Rightarrow> exn + json" where
  "py_setitem (JObj kvs) key v = Inr (JObj (AList.update key v kvs))"
| "py_setitem (JArr xs) key v =
     Inl (Raise TypeError ''list indices must be integers or slices, not str'')"
| "py_setitem d key v =
     Inl (Raise TypeError
       (py_quote (type_name d) @ '' object does not support item assignment''))"

text \<open>\<^verbatim>\<open>s.startswith(p)\<close> and \<^verbatim>\<open>sub in s\<close> on strings.\<close>

fun startswith :: "string \<Rightarrow> string \<Rightarrow> bool" where
  "startswith s [] = True"
| "startswith [] (p # ps) = False"
| "startswith (c # cs) (p # ps) = (c = p \<and> startswith cs ps)"

fun contains :: "string \<Rightarrow> string \<Rightarrow> bool" where
  "contains [] sub = (sub = [])"
| "contains (c # cs) sub = (startswith (c # cs) sub \<or> contains cs sub)"

section \<open>config\_manager.py\<close>

text \<open>
  The preferences file, as \<^verbatim>\<open>_load_config\<close> can find it: absent; present but not
  to be opened for reading (\<^verbatim>\<open>open\<close> raises an \<^verbatim>\<open>OSError\<close> that is not
  \<^verbatim>\<open>FileNotFoundError\<close>); present with bytes that are no text in the locale's encoding
  (\<^verbatim>\<open>json.load\<close> raises \<^verbatim>\<open>UnicodeDecodeError\<close>); present with text that is not JSON
  (\<^verbatim>\<open>json.load\<close> raises \<^verbatim>\<open>JSONDecodeError\<close>); present with JSON text that
  \<^verbatim>\<open>json.load\<close> refuses with a \<^verbatim>\<open>ValueError\<close> (an integer of more digits than the
  interpreter converts); or present with the JSON text of a value \<^verbatim>\<open>json.load\<close> returns.
  \<^verbatim>\<open>json.dump\<close> and \<^verbatim>\<open>json.load\<close> belong to Python's library and are taken by their
  contract: the text \<^verbatim>\<open>json.dump\<close> writes for a value is read back as that value.
  Each failing state carries the text of its exception.
\<close>

datatype file_state =
    Absent
  | Unreadable string
  | Misencoded string
  | Undecodable string
  | Unloadable string
  | Document json

text \<open>
  The disk: the configuration directory, the preferences file in it, what
  \<^verbatim>\<open>mkdir\<close> and \<^verbatim>\<open>open(..., 'w')\<close> raise there, if they do, and the text of the
  \<^verbatim>\<open>FileNotFoundError\<close> that \<^verbatim>\<open>open\<close> raises for the file's path where the file or its
  directory is missing (the text names the path, which lies under the user's home).
\<close>

record disk =
  dir_exists :: bool
  mkdir_error :: "string option"
  config_file :: file_state
  write_error :: "string option"
  not_found_error :: string

record ConfigManager =
  config :: json

definition default_config :: json where
  "default_config =
     JObj [(''openai_api_key'', JStr ''''),
           (''whisper_model'', JStr ''whisper-1''),
           (''text_model'', JStr ''gpt-4o-mini'')]"

text \<open>The text of the \<^verbatim>\<open>FileNotFoundError\<close> on the disks of the examples.\<close>

definition example_not_found :: string where
  "example_not_found =
     ''[Errno 2] No such file or directory: ''
       @ py_quote ''/home/user/.config/whisper-converter/config.json''"

text \<open>\<^verbatim>\<open>_ensure_config_dir\<close>\<close>

definition ensure_config_dir :: "disk \<Rightarrow> exn + disk" where
  "ensure_config_dir d =
     (if \<not> dir_exists d then
        (case mkdir_error d of
           Some m \<Rightarrow> Inl (Raise OSError m)
         | None \<Rightarrow> Inr (d\<lparr>dir_exists := True\<rparr>))
      else Inr d)"

text \<open>
  \<^verbatim>\<open>_load_config\<close>. The \<^verbatim>\<open>except\<close> clause catches \<^verbatim>\<open>JSONDecodeError\<close> and
  \<^verbatim>\<open>FileNotFoundError\<close> only; what \<^verbatim>\<open>json.load\<close> returns is returned as it is.
\<close>

definition load_config_try :: "disk \<Rightarrow> exn + json" where
  "load_config_try d =
     (case config_file d of
        Absent \<Rightarrow> Inl (Raise FileNotFoundError (not_found_error d))
      | Unreadable m \<Rightarrow> Inl (Raise OSError m)
      | Misencoded m \<Rightarrow> Inl (Raise UnicodeDecodeError m)
      | Undecodable m \<Rightarrow> Inl (Raise JSONDecodeError m)
      | Unloadable m \<Rightarrow> Inl (Raise ValueError m)
      | Document v \<Rightarrow> Inr v)"

definition load_config :: "disk \<Rightarrow> exn + json" where
  "load_config d =
     (if config_file d = Absent then Inr default_config
      else
        (case load_config_try d of
           Inr v \<Rightarrow> Inr v
         | Inl e \<Rightarrow>
             (if exn_class_of e = JSONDecodeError \<or> exn_class_of e = FileNotFoundError
              then Inr default_config
              else Inl e)))"

text \<open>\<^verbatim>\<open>ConfigManager.__init__\<close>\<close>

definition ConfigManager_init :: "disk \<Rightarrow> exn + (ConfigManager \<times> disk)" where
  "ConfigManager_init d =
     (case ensure_config_dir d of
        Inl e \<Rightarrow> Inl e
      | Inr d' \<Rightarrow>
          (case load_config d' of
             Inl e \<Rightarrow> Inl e
           | Inr c \<Rightarrow> Inr (\<lparr>config = c\<rparr>, d')))"

text \<open>
  \<^verbatim>\<open>save_config\<close>: \<^verbatim>\<open>open(..., 'w')\<close> raises (and the file stays as it was), or the file
  is replaced by the JSON text of the whole configuration. The configuration is a value
  \<^verbatim>\<open>json.load\<close> returned with strings of the settings dialog assigned to its keys,
  which \<^verbatim>\<open>json.dump\<close> writes; a write that breaks off after \<^verbatim>\<open>open\<close> has emptied the
  file (a full disk) is outside the model.
\<close>

definition save_config :: "ConfigManager \<Rightarrow> disk \<Rightarrow> exn + disk" where
  "save_config cm d =
     (if \<not> dir_exists d then Inl (Raise FileNotFoundError (not_found_error d))
      else
        (case write_error d of
           Some m \<Rightarrow> Inl (Raise OSError m)
         | None \<Rightarrow> Inr (d\<lparr>config_file := Document (config cm)\<rparr>)))"

definition get_openai_api_key :: "ConfigManager \<Rightarrow> exn + json" where
  "get_openai_api_key cm = py_get (config cm) ''openai_api_key'' (JStr '''')"

definition get_whisper_model :: "ConfigManager \<Rightarrow> exn + json" where
  "get_whisper_model cm = py_get (config cm) ''whisper_model'' (JStr ''whisper-1'')"

definition get_text_model :: "ConfigManager \<Rightarrow> exn + json" where
  "get_text_model cm = py_get (config cm) ''text_model'' (JStr ''gpt-4o-mini'')"

text \<open>
  A setter assigns its key and saves. An exception rolls nothing back: when the save
  fails the assignment stays in memory. The result is the outcome with the manager and
  the disk as the call leaves them.
\<close>

definition set_openai_api_key ::
  "ConfigManager \<Rightarrow> json \<Rightarrow> disk \<Rightarrow> (exn + unit) \<times> ConfigManager \<times> disk" where
  "set_openai_api_key cm api_key d =
     (case py_setitem (config cm) ''openai_api_key'' api_key of
        Inl e \<Rightarrow> (Inl e, cm, d)
      | Inr c \<Rightarrow>
          (case save_config (cm\<lparr>config := c\<rparr>) d of
             Inl e \<Rightarrow> (Inl e, cm\<lparr>config := c\<rparr>, d)
           | Inr d' \<Rightarrow> (Inr (), cm\<lparr>config := c\<rparr>, d')))"

definition set_whisper_model ::
  "ConfigManager \<Rightarrow> json \<Rightarrow> disk \<Rightarrow> (exn + unit) \<times> ConfigManager \<times> disk" where
  "set_whisper_model cm model d =
     (case py_setitem (config cm) ''whisper_model'' model of
        Inl e \<Rightarrow> (Inl e, cm, d)
      | Inr c \<Rightarrow>
          (case save_config (cm\<lparr>config := c\<rparr>) d of
             Inl e \<Rightarrow> (Inl e, cm\<lparr>config := c\<rparr>, d)
           | Inr d' \<Rightarrow> (Inr (), cm\<lparr>config := c\<rparr>, d')))"

definition set_text_model ::
  "ConfigManager \<Rightarrow> json \<Rightarrow> disk \<Rightarrow> (exn + unit) \<times> ConfigManager \<times> disk" where
  "set_text_model cm model d =
     (case py_setitem (config cm) ''text_model'' model of
        Inl e \<Rightarrow> (Inl e, cm, d)
      | Inr c \<Rightarrow>
          (case save_config (cm\<lparr>config := c\<rparr>) d of
             Inl e \<Rightarrow> (Inl e, cm\<lparr>config := c\<rparr>, d)
           | Inr d' \<Rightarrow> (Inr (), cm\<lparr>config := c\<rparr>, d')))"

text \<open>
  The preferences record of the specification: the three fields as the getters yield
  them.
\<close>

definition preferences :: "ConfigManager \<Rightarrow> exn + (json \<times> json \<times> json)" where
  "preferences cm =
     (case get_openai_api_key cm of
        Inl e \<Rightarrow> Inl e
      | Inr k \<Rightarrow>
          (case get_whisper_model cm of
             Inl e \<Rightarrow> Inl e
           | Inr w \<Rightarrow>
               (case get_text_model cm of
                  Inl e \<Rightarrow> Inl e
                | Inr t \<Rightarrow> Inr (k, w, t))))"

text \<open>
  A field of the persisted record: what the getter answers on the configuration that
  loading from the disk yields.
\<close>

definition persisted :: "(ConfigManager \<Rightarrow> exn + json) \<Rightarrow> disk \<Rightarrow> exn + json" where
  "persisted getter d =
     (case load_config d of
        Inl e \<Rightarrow> Inl e
      | Inr c \<Rightarrow> getter \<lparr>config = c\<rparr>)"

section \<open>openai\_service.py\<close>

text \<open>
  The OpenAI client library and the file system are outside the repository. They are
  the \<open>world\<close> the service runs in: what opening the audio file yields, what each of the
  two endpoints answers to a request (\<open>Inl\<close>: the call, or reading the text out of its
  response, raises; \<open>Inr\<close>: the text the service extracts from the response,
  \<^verbatim>\<open>response.choices[0].message.content\<close> or \<^verbatim>\<open>response.text\<close>, a \<^verbatim>\<open>str\<close>), and what
  \<^verbatim>\<open>json.loads\<close> makes of a text. Every theorem holds for every world. A client is the
  key it was built with; \<^verbatim>\<open>set_api_key\<close> builds one for whatever key it is given.
\<close>

type_synonym bytes = "8 word list"

datatype client = OpenAI json

datatype part = AudioPart bytes

datatype message_content = Text string | Parts "part list"

record message =
  role :: string
  content :: message_content

record chat_request =
  req_model :: json
  req_messages :: "message list"
  req_response_format :: string

datatype api_call =
    ChatCompletionsCreate client chat_request
  | AudioTranscriptionsCreate client json bytes

record world =
  open_rb :: "string \<Rightarrow> exn + bytes"
  chat_completions_create :: "client \<Rightarrow> chat_request \<Rightarrow> exn + string"
  audio_transcriptions_create :: "client \<Rightarrow> json \<Rightarrow> bytes \<Rightarrow> exn + string"
  json_loads :: "string \<Rightarrow> exn + json"

record OpenAIService =
  api_key :: json
  client :: "client option"

definition WHISPER_MODELS :: "string list" where
  "WHISPER_MODELS =
     [''whisper-1'', ''whisper-large-v3'', ''gpt-4o-transcribe'', ''gpt-4o-mini-transcribe'']"

definition TEXT_MODELS :: "string list" where
  "TEXT_MODELS = [''gpt-4o-mini'', ''gpt-4o'', ''gpt-3.5-turbo'']"

definition set_api_key :: "OpenAIService \<Rightarrow> json \<Rightarrow> OpenAIService" where
  "set_api_key s k = s\<lparr>api_key := k, client := Some (OpenAI k)\<rparr>"

text \<open>\<^verbatim>\<open>OpenAIService.__init__\<close>: a client is built only for a key that is true.\<close>

definition OpenAIService_init :: "json \<Rightarrow> OpenAIService" where
  "OpenAIService_init k =
     (if truthy k then set_api_key \<lparr>api_key = k, client = None\<rparr> k
      else \<lparr>api_key = k, client = None\<rparr>)"

definition get_available_whisper_models :: "OpenAIService \<Rightarrow> string list" where
  "get_available_whisper_models s = WHISPER_MODELS"

definition get_available_text_models :: "OpenAIService \<Rightarrow> string list" where
  "get_available_text_models s = TEXT_MODELS"

definition api_key_not_set :: exn where
  "api_key_not_set =
     Raise Exception ''API key not set. Please set your OpenAI API key in settings.''"

definition transcribe_system_prompt :: string where
  "transcribe_system_prompt = ''You are a helpful assistant that transcribes audio accurately. Provide only the transcription without any additional commentary.''"

definition clean_system_prompt :: string where
  "clean_system_prompt = ''You are a text rewriting assistant. You will receive text that was captured and transcribed from speech to text processing. Your task is to edit this text for intelligibility and clarity. You should resolve any obvious typos. If you can identify in the text instructions to remove part of the transcribed text, such as \"actually, delete that\" Then you should action the intent, which you can infer from the instruction which was included in the transcript. You should also add paragraph spacing. You should use bullet points where it would be helpful to improve the intelligibility of the text. You should add headers where it would similarly make the text more readable. If there is repetition or redundancy in the text, then you can remove it in your improved version. Once you have applied these edits, you must return the edited text.''"

definition title_system_prompt :: string where
  "title_system_prompt = ''You are a helpful assistant. Your task is to generate a short title for the text. The title should summarize its main content. In addition to the display title, you must also generate a suggested file name. The file name should be similar to the main title, but it should be written in kebab case (no upper case, hyphens for space). Return your response in JSON format with two fields: 'title' and 'filename'.''"

text \<open>The three requests the service builds for \<^verbatim>\<open>chat.completions.create\<close>.\<close>

definition transcribe_request :: "json \<Rightarrow> bytes \<Rightarrow> chat_request" where
  "transcribe_request m audio =
     \<lparr>req_model = m,
      req_messages =
        [\<lparr>role = ''system'', content = Text transcribe_system_prompt\<rparr>,
         \<lparr>role = ''user'', content = Parts [AudioPart audio]\<rparr>],
      req_response_format = ''text''\<rparr>"

definition clean_request :: "string \<Rightarrow> json \<Rightarrow> chat_request" where
  "clean_request text m =
     \<lparr>req_model = m,
      req_messages =
        [\<lparr>role = ''system'', content = Text clean_system_prompt\<rparr>,
         \<lparr>role = ''user'', content = Text text\<rparr>],
      req_response_format = ''text''\<rparr>"

definition title_request :: "string \<Rightarrow> json \<Rightarrow> chat_request" where
  "title_request text m =
     \<lparr>req_model = m,
      req_messages =
        [\<lparr>role = ''system'', content = Text title_system_prompt\<rparr>,
         \<lparr>role = ''user'', content = Text text\<rparr>],
      req_response_format = ''json_object''\<rparr>"

text \<open>
  The body of the \<^verbatim>\<open>try\<close> of \<^verbatim>\<open>transcribe_audio\<close>, with the client that passed the guard:
  the calls it makes on the network, in order, and its outcome. Only a \<^verbatim>\<open>str\<close> has
  \<^verbatim>\<open>startswith\<close>.
\<close>

definition transcribe_audio_try ::
  "world \<Rightarrow> client \<Rightarrow> string \<Rightarrow> json \<Rightarrow> api_call list \<times> (exn + string)" where
  "transcribe_audio_try w c file_path m =
     (case m of
        JStr name \<Rightarrow>
          (if startswith name ''gpt-4o'' \<and> contains name ''transcribe'' then
             (case open_rb w file_path of
                Inl e \<Rightarrow> ([], Inl e)
              | Inr audio \<Rightarrow>
                  ([ChatCompletionsCreate c (transcribe_request m audio)],
                   chat_completions_create w c (transcribe_request m audio)))
           else
             (case open_rb w file_path of
                Inl e \<Rightarrow> ([], Inl e)
              | Inr audio \<Rightarrow>
                  ([AudioTranscriptionsCreate c m audio],
                   audio_transcriptions_create w c m audio)))
      | _ \<Rightarrow> ([], Inl (no_attribute m ''startswith'')))"

definition OpenAIService_transcribe_audio ::
  "world \<Rightarrow> OpenAIService \<Rightarrow> string \<Rightarrow> json \<Rightarrow> api_call list \<times> (exn + string)" where
  "OpenAIService_transcribe_audio w s file_path m =
     (case client s of
        None \<Rightarrow> ([], Inl api_key_not_set)
      | Some c \<Rightarrow>
          (case transcribe_audio_try w c file_path m of
             (calls, Inr text) \<Rightarrow> (calls, Inr text)
           | (calls, Inl e) \<Rightarrow>
               (calls, Inl (Raise Exception (''Error transcribing audio: '' @ str e)))))"

definition clean_text_try ::
  "world \<Rightarrow> client \<Rightarrow> string \<Rightarrow> json \<Rightarrow> api_call list \<times> (exn + string)" where
  "clean_text_try w c text m =
     ([ChatCompletionsCreate c (clean_request text m)],
      chat_completions_create w c (clean_request text m))"

definition OpenAIService_clean_text ::
  "world \<Rightarrow> OpenAIService \<Rightarrow> string \<Rightarrow> json \<Rightarrow> api_call list \<times> (exn + string)" where
  "OpenAIService_clean_text w s text m =
     (case client s of
        None \<Rightarrow> ([], Inl api_key_not_set)
      | Some c \<Rightarrow>
          (case clean_text_try w c text m of
             (calls, Inr cleaned) \<Rightarrow> (calls, Inr cleaned)
           | (calls, Inl e) \<Rightarrow>
               (calls, Inl (Raise Exception (''Error cleaning text: '' @ str e)))))"

text \<open>
  \<^verbatim>\<open>generate_title\<close> parses the answer and reads the two fields with \<^verbatim>\<open>get\<close>, the title
  first.
\<close>

definition generate_title_try ::
  "world \<Rightarrow> client \<Rightarrow> string \<Rightarrow> json \<Rightarrow> api_call list \<times> (exn + json \<times> json)" where
  "generate_title_try w c text m =
     ([ChatCompletionsCreate c (title_request text m)],
      (case chat_completions_create w c (title_request text m) of
         Inl e \<Rightarrow> Inl e
       | Inr answer \<Rightarrow>
           (case json_loads w answer of
              Inl e \<Rightarrow> Inl e
            | Inr result \<Rightarrow>
                (case py_get result ''title'' (JStr ''Untitled'') of
                   Inl e \<Rightarrow> Inl e
                 | Inr title \<Rightarrow>
                     (case py_get result ''filename'' (JStr ''untitled'') of
                        Inl e \<Rightarrow> Inl e
                      | Inr filename \<Rightarrow> Inr (title, filename))))))"

definition OpenAIService_generate_title ::
  "world \<Rightarrow> OpenAIService \<Rightarrow> string \<Rightarrow> json \<Rightarrow> api_call list \<times> (exn + json \<times> json)" where
  "OpenAIService_generate_title w s text m =
     (case client s of
        None \<Rightarrow> ([], Inl api_key_not_set)
      | Some c \<Rightarrow>
          (case generate_title_try w c text m of
             (calls, Inr r) \<Rightarrow> (calls, Inr r)
           | (calls, Inl e) \<Rightarrow>
               (calls, Inl (Raise Exception (''Error generating title: '' @ str e)))))"

section \<open>main.py\<close>

text \<open>
  The window's state: the two collaborators, the data fields, the widgets the handlers
  read or write, the message boxes shown so far, the worker thread the window holds and
  the threads \<^verbatim>\<open>start()\<close> was called on, oldest first. The session of the
  specification is what the two text boxes and the two \<^verbatim>\<open>generated_\<close> fields hold. A
  label formatted from a value by an f-string keeps the prefix and the value.
\<close>

datatype label = Label string | LabelFmt string json

datatype message_box = Warning string string | Critical string string

text \<open>
  A worker has the bound method of the service it is to call, the arguments, and the
  slots connected to its two signals. What a method returns travels in the
  \<^verbatim>\<open>finished\<close> signal as an object.
\<close>

datatype bound_method = Svc_transcribe_audio | Svc_clean_text | Svc_generate_title

datatype slot =
    On_transcription_complete
  | On_cleaning_complete
  | On_title_generation_complete
  | On_error

datatype py_object = PyStr string | PyTuple json json

datatype signal = Finished py_object | Error string

record WorkerThread =
  task_type :: string
  func :: bound_method
  args :: "string \<times> json"
  finished_slot :: slot
  error_slot :: slot

record MainWindow =
  config_manager :: ConfigManager
  openai_service :: OpenAIService
  selected_file_path :: "string option"
  generated_title :: "json option"
  generated_filename :: "json option"
  transcribed_text :: string
  cleaned_text :: string
  file_path_label :: label
  model_info_label :: label
  title_label :: label
  transcribe_button_enabled :: bool
  progress_bar_visible :: bool
  progress_bar_range :: "int \<times> int"
  status_message :: string
  message_boxes :: "message_box list"
  worker :: "WorkerThread option"
  started :: "WorkerThread list"

definition session :: "MainWindow \<Rightarrow> string \<times> string \<times> json option \<times> json option" where
  "session mw =
     (transcribed_text mw, cleaned_text mw, generated_title mw, generated_filename mw)"

text \<open>\<^verbatim>\<open>self.func(*self.args)\<close>, on the service as it is when the thread runs.\<close>

definition call_func ::
  "world \<Rightarrow> OpenAIService \<Rightarrow> WorkerThread \<Rightarrow> api_call list \<times> (exn + py_object)" where
  "call_func w s t =
     (case func t of
        Svc_transcribe_audio \<Rightarrow>
          (case OpenAIService_transcribe_audio w s (fst (args t)) (snd (args t)) of
             (calls, Inr r) \<Rightarrow> (calls, Inr (PyStr r))
           | (calls, Inl e) \<Rightarrow> (calls, Inl e))
      | Svc_clean_text \<Rightarrow>
          (case OpenAIService_clean_text w s (fst (args t)) (snd (args t)) of
             (calls, Inr r) \<Rightarrow> (calls, Inr (PyStr r))
           | (calls, Inl e) \<Rightarrow> (calls, Inl e))
      | Svc_generate_title \<Rightarrow>
          (case OpenAIService_generate_title w s (fst (args t)) (snd (args t)) of
             (calls, Inr (title, filename)) \<Rightarrow> (calls, Inr (PyTuple title filename))
           | (calls, Inl e) \<Rightarrow> (calls, Inl e)))"

text \<open>\<^verbatim>\<open>WorkerThread.run\<close>: the network calls made and the signals emitted, in order.\<close>

definition WorkerThread_run ::
  "world \<Rightarrow> OpenAIService \<Rightarrow> WorkerThread \<Rightarrow> api_call list \<times> signal list" where
  "WorkerThread_run w s t =
     (case call_func w s t of
        (calls, Inr result) \<Rightarrow> (calls, [Finished result])
      | (calls, Inl e) \<Rightarrow> (calls, [Error (str e)]))"

text \<open>\<^verbatim>\<open>MainWindow.__init__\<close>\<close>

definition MainWindow_init :: "disk \<Rightarrow> exn + (MainWindow \<times> disk)" where
  "MainWindow_init d =
     (case ConfigManager_init d of
        Inl e \<Rightarrow> Inl e
      | Inr (cm, d') \<Rightarrow>
          (case get_openai_api_key cm of
             Inl e \<Rightarrow> Inl e
           | Inr k \<Rightarrow>
               (case get_whisper_model cm of
                  Inl e \<Rightarrow> Inl e
                | Inr wm \<Rightarrow>
                    Inr (\<lparr>config_manager = cm,
                          openai_service = OpenAIService_init k,
                          selected_file_path = None,
                          generated_title = None,
                          generated_filename = None,
                          transcribed_text = [],
                          cleaned_text = [],
                          file_path_label = Label ''No file selected'',
                          model_info_label = LabelFmt ''Using transcription model: '' wm,
                          title_label = Label ''Title: Not generated yet'',
                          transcribe_button_enabled = False,
                          progress_bar_visible = False,
                          progress_bar_range = (0, 100),
                          status_message = ''Ready'',
                          message_boxes = [],
                          worker = None,
                          started = []\<rparr>, d'))))"

definition basename :: "string \<Rightarrow> string" where
  "basename p = rev (takeWhile (\<lambda>c. c \<noteq> CHR ''/'') (rev p))"

text \<open>\<^verbatim>\<open>select_audio_file\<close>, with the path the file dialog returned (empty: cancelled).\<close>

definition select_audio_file :: "MainWindow \<Rightarrow> string \<Rightarrow> MainWindow" where
  "select_audio_file mw file_path =
     (if file_path \<noteq> [] then
        mw\<lparr>selected_file_path := Some file_path,
           file_path_label := Label (''Selected: '' @ basename file_path),
           transcribe_button_enabled := True\<rparr>
      else mw)"

text \<open>
  The three triggers. Each returns early where a guard fails, and otherwise creates a
  worker, connects its signals and starts it; an exception that leaves the handler is
  \<open>Inl\<close>.
\<close>

definition MainWindow_transcribe_audio :: "MainWindow \<Rightarrow> exn + MainWindow" where
  "MainWindow_transcribe_audio mw =
     (case selected_file_path mw of
        None \<Rightarrow> Inr mw
      | Some file_path \<Rightarrow>
          (if file_path = [] then Inr mw
           else
             (case get_openai_api_key (config_manager mw) of
                Inl e \<Rightarrow> Inl e
              | Inr k \<Rightarrow>
                  (if \<not> truthy k then
                     Inr (mw\<lparr>message_boxes := message_boxes mw @
                            [Warning ''API Key Required''
                               ''Please set your OpenAI API key in Settings before transcribing.'']\<rparr>)
                   else
                     (case get_whisper_model (config_manager mw) of
                        Inl e \<Rightarrow> Inl e
                      | Inr whisper_model \<Rightarrow>
                          (let t = \<lparr>task_type = ''transcribe'',
                                    func = Svc_transcribe_audio,
                                    args = (file_path, whisper_model),
                                    finished_slot = On_transcription_complete,
                                    error_slot = On_error\<rparr>
                           in Inr (mw\<lparr>progress_bar_visible := True,
                                      progress_bar_range := (0, 0),
                                      status_message := ''Transcribing audio...'',
                                      transcribe_button_enabled := False,
                                      worker := Some t,
                                      started := started mw @ [t]\<rparr>)))))))"

definition on_transcription_complete :: "MainWindow \<Rightarrow> string \<Rightarrow> MainWindow" where
  "on_transcription_complete mw text =
     mw\<lparr>transcribed_text := text,
        progress_bar_visible := False,
        progress_bar_range := (0, 100),
        transcribe_button_enabled := True,
        status_message := ''Transcription complete''\<rparr>"

definition MainWindow_clean_text :: "MainWindow \<Rightarrow> exn + MainWindow" where
  "MainWindow_clean_text mw =
     (let text = transcribed_text mw in
      if text = [] then
        Inr (mw\<lparr>message_boxes := message_boxes mw @
               [Warning ''No Text'' ''Please transcribe an audio file first.'']\<rparr>)
      else
        (case get_openai_api_key (config_manager mw) of
           Inl e \<Rightarrow> Inl e
         | Inr k \<Rightarrow>
             (if \<not> truthy k then
                Inr (mw\<lparr>message_boxes := message_boxes mw @
                       [Warning ''API Key Required''
                          ''Please set your OpenAI API key in Settings before cleaning text.'']\<rparr>)
              else
                (case get_text_model (config_manager mw) of
                   Inl e \<Rightarrow> Inl e
                 | Inr text_model \<Rightarrow>
                     (let t = \<lparr>task_type = ''clean'',
                               func = Svc_clean_text,
                               args = (text, text_model),
                               finished_slot = On_cleaning_complete,
                               error_slot = On_error\<rparr>
                      in Inr (mw\<lparr>progress_bar_visible := True,
                                 progress_bar_range := (0, 0),
                                 status_message := ''Cleaning text...'',
                                 worker := Some t,
                                 started := started mw @ [t]\<rparr>))))))"

definition on_cleaning_complete :: "MainWindow \<Rightarrow> string \<Rightarrow> MainWindow" where
  "on_cleaning_complete mw text =
     mw\<lparr>cleaned_text := text,
        progress_bar_visible := False,
        progress_bar_range := (0, 100),
        status_message := ''Text cleaning complete''\<rparr>"

definition MainWindow_generate_title :: "MainWindow \<Rightarrow> exn + MainWindow" where
  "MainWindow_generate_title mw =
     (let text = transcribed_text mw in
      if text = [] then
        Inr (mw\<lparr>message_boxes := message_boxes mw @
               [Warning ''No Text'' ''Please transcribe an audio file first.'']\<rparr>)
      else
        (case get_openai_api_key (config_manager mw) of
           Inl e \<Rightarrow> Inl e
         | Inr k \<Rightarrow>
             (if \<not> truthy k then
                Inr (mw\<lparr>message_boxes := message_boxes mw @
                       [Warning ''API Key Required''
                          ''Please set your OpenAI API key in Settings before generating a title.'']\<rparr>)
              else
                (case get_text_model (config_manager mw) of
                   Inl e \<Rightarrow> Inl e
                 | Inr text_model \<Rightarrow>
                     (let t = \<lparr>task_type = ''title'',
                               func = Svc_generate_title,
                               args = (text, text_model),
                               finished_slot = On_title_generation_complete,
                               error_slot = On_error\<rparr>
                      in Inr (mw\<lparr>progress_bar_visible := True,
                                 progress_bar_range := (0, 0),
                                 status_message := ''Generating title...'',
                                 worker := Some t,
                                 started := started mw @ [t]\<rparr>))))))"

definition on_title_generation_complete :: "MainWindow \<Rightarrow> json \<times> json \<Rightarrow> MainWindow" where
  "on_title_generation_complete mw result =
     (case result of
        (title, filename) \<Rightarrow>
          mw\<lparr>generated_title := Some title,
             generated_filename := Some filename,
             title_label := LabelFmt ''Title: '' title,
             progress_bar_visible := False,
             progress_bar_range := (0, 100),
             status_message := ''Title generation complete''\<rparr>)"

definition on_error :: "MainWindow \<Rightarrow> string \<Rightarrow> MainWindow" where
  "on_error mw error_message =
     mw\<lparr>progress_bar_visible := False,
        progress_bar_range := (0, 100),
        transcribe_button_enabled := True,
        status_message := ''Error'',
        message_boxes := message_boxes mw @ [Critical ''Error'' error_message]\<rparr>"

text \<open>
  The event loop delivers a signal to the slot connected to it. A text box takes a
  string and the title slot unpacks a pair; the triggers never connect a slot to a
  method that returns the other kind, and there the slot raises.
\<close>

definition deliver :: "MainWindow \<Rightarrow> WorkerThread \<Rightarrow> signal \<Rightarrow> exn + MainWindow" where
  "deliver mw t sig =
     (case sig of
        Error error_message \<Rightarrow>
          (case error_slot t of
             On_error \<Rightarrow> Inr (on_error mw error_message)
           | On_transcription_complete \<Rightarrow> Inr (on_transcription_complete mw error_message)
           | On_cleaning_complete \<Rightarrow> Inr (on_cleaning_complete mw error_message)
           | On_title_generation_complete \<Rightarrow>
               Inl (Raise TypeError ''the slot unpacks a pair''))
      | Finished (PyStr text) \<Rightarrow>
          (case finished_slot t of
             On_transcription_complete \<Rightarrow> Inr (on_transcription_complete mw text)
           | On_cleaning_complete \<Rightarrow> Inr (on_cleaning_complete mw text)
           | On_error \<Rightarrow> Inr (on_error mw text)
           | On_title_generation_complete \<Rightarrow>
               Inl (Raise TypeError ''the slot unpacks a pair''))
      | Finished (PyTuple title filename) \<Rightarrow>
          (case finished_slot t of
             On_title_generation_complete \<Rightarrow>
               Inr (on_title_generation_complete mw (title, filename))
           | _ \<Rightarrow> Inl (Raise TypeError ''the slot takes a str'')))"

fun deliver_all :: "MainWindow \<Rightarrow> WorkerThread \<Rightarrow> signal list \<Rightarrow> exn + MainWindow" where
  "deliver_all mw t [] = Inr mw"
| "deliver_all mw t (sig # sigs) =
     (case deliver mw t sig of
        Inl e \<Rightarrow> Inl e
      | Inr mw' \<Rightarrow> deliver_all mw' t sigs)"

text \<open>
  A started worker from start to completion: it runs against the world, on the service
  the window holds, and the signals it emitted are delivered to the window.
\<close>

definition finish :: "world \<Rightarrow> MainWindow \<Rightarrow> WorkerThread \<Rightarrow> api_call list \<times> (exn + MainWindow)" where
  "finish w mw t =
     (case WorkerThread_run w (openai_service mw) t of
        (calls, sigs) \<Rightarrow> (calls, deliver_all mw t sigs))"

section \<open>Example inputs\<close>

text \<open>
  A world for the examples: the audio file \<^verbatim>\<open>/tmp/a.mp3\<close> exists, both endpoints
  answer, and the title request is answered with the given text, which
  \<^verbatim>\<open>json.loads\<close> reads as Python's does for the three texts used below. And a world
  where every call on the network raises.
\<close>

definition example_world :: "string \<Rightarrow> world" where
  "example_world answer =
     \<lparr>open_rb = (\<lambda>p. if p = ''/tmp/a.mp3'' then Inr [82, 73, 70, 70]
                     else Inl (Raise FileNotFoundError ''No such file or directory'')),
      chat_completions_create =
        (\<lambda>c r. if req_response_format r = ''json_object'' then Inr answer
               else Inr ''Hello, world.''),
      audio_transcriptions_create = (\<lambda>c m audio. Inr ''hello world''),
      json_loads =
        (\<lambda>t. if t = ''{}'' then Inr (JObj [])
             else if t = ''{\"title\": \"Notes\"}'' then Inr (JObj [(''title'', JStr ''Notes'')])
             else Inl (Raise JSONDecodeError ''Expecting value: line 1 column 1 (char 0)''))\<rparr>"

definition failing_world :: world where
  "failing_world =
     \<lparr>open_rb = (\<lambda>p. if p = ''/tmp/a.mp3'' then Inr [82, 73, 70, 70]
                     else Inl (Raise FileNotFoundError ''No such file or directory'')),
      chat_completions_create = (\<lambda>c r. Inl (Raise APIError ''Connection error.'')),
      audio_transcriptions_create = (\<lambda>c m audio. Inl (Raise APIError ''Connection error.'')),
      json_loads = (\<lambda>t. Inl (Raise JSONDecodeError ''Expecting value: line 1 column 1 (char 0)''))\<rparr>"

definition example_disk :: disk where
  "example_disk =
     \<lparr>dir_exists = True, mkdir_error = None,
      config_file = Document (JObj [(''openai_api_key'', JStr ''sk-1'')]),
      write_error = None,
      not_found_error = example_not_found\<rparr>"

text \<open>
  Windows for the examples: the window as constructed on a disk without a preferences
  file (no credential, no file selected, no text), and a window with a credential and a
  transcript, before and after the cleaning trigger.
\<close>

definition fresh_disk :: disk where
  "fresh_disk =
     \<lparr>dir_exists = False, mkdir_error = None, config_file = Absent, write_error = None,
      not_found_error = example_not_found\<rparr>"

definition fresh_window :: MainWindow where
  "fresh_window =
     \<lparr>config_manager = \<lparr>config = default_config\<rparr>,
      openai_service = \<lparr>api_key = JStr '''', client = None\<rparr>,
      selected_file_path = None,
      generated_title = None,
      generated_filename = None,
      transcribed_text = [],
      cleaned_text = [],
      file_path_label = Label ''No file selected'',
      model_info_label = LabelFmt ''Using transcription model: '' (JStr ''whisper-1''),
      title_label = Label ''Title: Not generated yet'',
      transcribe_button_enabled = False,
      progress_bar_visible = False,
      progress_bar_range = (0, 100),
      status_message = ''Ready'',
      message_boxes = [],
      worker = None,
      started = []\<rparr>"

definition example_window :: MainWindow where
  "example_window =
     fresh_window
       \<lparr>config_manager := \<lparr>config = JObj [(''openai_api_key'', JStr ''sk-1'')]\<rparr>,
        openai_service := \<lparr>api_key = JStr ''sk-1'', client = Some (OpenAI (JStr ''sk-1''))\<rparr>,
        transcribed_text := ''um hello world''\<rparr>"

definition clean_worker :: WorkerThread where
  "clean_worker =
     \<lparr>task_type = ''clean'',
      func = Svc_clean_text,
      args = (''um hello world'', JStr ''gpt-4o-mini''),
      finished_slot = On_cleaning_complete,
      error_slot = On_error\<rparr>"

definition cleaning_window :: MainWindow where
  "cleaning_window =
     example_window
       \<lparr>progress_bar_visible := True,
        progress_bar_range := (0, 0),
        status_message := ''Cleaning text...'',
        worker := Some clean_worker,
        started := [clean_worker]\<rparr>"

text \<open>
  The disk of the examples while the preferences file cannot be opened for writing,
  and the manager constructed on that disk.
\<close>

definition example_denied :: string where
  "example_denied =
     ''[Errno 13] Permission denied: ''
       @ py_quote ''/home/user/.config/whisper-converter/config.json''"

definition readonly_disk :: disk where
  "readonly_disk = example_disk\<lparr>write_error := Some example_denied\<rparr>"

definition example_manager :: ConfigManager where
  "example_manager = \<lparr>config = JObj [(''openai_api_key'', JStr ''sk-1'')]\<rparr>"

text \<open>
  The workers the transcription and the title trigger build on the example window (for
  transcription, once \<^verbatim>\<open>/tmp/a.mp3\<close> is selected), and the window after each trigger.
\<close>

definition transcribe_worker :: WorkerThread where
  "transcribe_worker =
     \<lparr>task_type = ''transcribe'',
      func = Svc_transcribe_audio,
      args = (''/tmp/a.mp3'', JStr ''whisper-1''),
      finished_slot = On_transcription_complete,
      error_slot = On_error\<rparr>"

definition transcribing_window :: MainWindow where
  "transcribing_window =
     (select_audio_file example_window ''/tmp/a.mp3'')
       \<lparr>progress_bar_visible := True,
        progress_bar_range := (0, 0),
        status_message := ''Transcribing audio...'',
        transcribe_button_enabled := False,
        worker := Some transcribe_worker,
        started := [transcribe_worker]\<rparr>"

definition title_worker :: WorkerThread where
  "title_worker =
     \<lparr>task_type = ''title'',
      func = Svc_generate_title,
      args = (''um hello world'', JStr ''gpt-4o-mini''),
      finished_slot = On_title_generation_complete,
      error_slot = On_error\<rparr>"

definition titling_window :: MainWindow where
  "titling_window =
     example_window
       \<lparr>progress_bar_visible := True,
        progress_bar_range := (0, 0),
        status_message := ''Generating title...'',
        worker := Some title_worker,
        started := [title_worker]\<rparr>"

text \<open>
  A trigger is turned down when the handler returns having shown the one message box
  and nothing else of what the claims are about has changed: the session, the worker
  held, the workers started.
\<close>

definition turned_down :: "MainWindow \<Rightarrow> exn + MainWindow \<Rightarrow> message_box \<Rightarrow> bool" where
  "turned_down mw r box =
     (case r of
        Inl e \<Rightarrow> False
      | Inr mw' \<Rightarrow>
          message_boxes mw' = message_boxes mw @ [box]
          \<and> session mw' = session mw
          \<and> worker mw' = worker mw
          \<and> started mw' = started mw)"

section \<open>The string tests\<close>

text \<open>
  \<open>startswith\<close> is the prefix test and \<open>contains\<close> the test for a contiguous
  sublist, as \<^verbatim>\<open>str.startswith\<close> and \<^verbatim>\<open>in\<close> are.
\<close>

lemma startswith_prefix: "startswith s p \<longleftrightarrow> prefix p s"
  by (induction s p rule: startswith.induct) auto

lemma contains_sublist: "contains s sub \<longleftrightarrow> sublist sub s"
  by (induction s) (simp_all add: sublist_Cons_right startswith_prefix)

section \<open>Properties of the preference store\<close>

lemma save_config_Inr:
  "save_config cm d = Inr d' \<Longrightarrow>
     dir_exists d \<and> write_error d = None \<and> d' = d\<lparr>config_file := Document (config cm)\<rparr>"
  by (auto simp: save_config_def split: if_splits option.splits)

lemma load_config_Document: "config_file d = Document v \<Longrightarrow> load_config d = Inr v"
  by (simp add: load_config_def load_config_try_def)

lemma py_get_setitem_other:
  "py_setitem c key v = Inr c' \<Longrightarrow> key' \<noteq> key \<Longrightarrow> py_get c' key' dflt = py_get c key' dflt"
  by (cases c) (auto simp: update_conv')

lemma py_get_setitem_same: "py_setitem c key v = Inr c' \<Longrightarrow> py_get c' key dflt = Inr v"
  by (cases c) (auto simp: update_conv')

text \<open>
  Where the file is absent, is no JSON, or holds a JSON object, loading succeeds and
  every getter has a value: the stored one, or the default for a missing key.
\<close>

lemma load_config_absent: "config_file d = Absent \<Longrightarrow> load_config d = Inr default_config"
  by (simp add: load_config_def)

lemma load_config_undecodable:
  "config_file d = Undecodable m \<Longrightarrow> load_config d = Inr default_config"
  by (simp add: load_config_def load_config_try_def)

lemma preferences_default:
  "preferences \<lparr>config = default_config\<rparr> =
     Inr (JStr '''', JStr ''whisper-1'', JStr ''gpt-4o-mini'')"
  by (simp add: preferences_def default_config_def get_openai_api_key_def
      get_whisper_model_def get_text_model_def)

lemma preferences_object:
  "preferences \<lparr>config = JObj kvs\<rparr> =
     Inr (case map_of kvs ''openai_api_key'' of None \<Rightarrow> JStr '''' | Some v \<Rightarrow> v,
          case map_of kvs ''whisper_model'' of None \<Rightarrow> JStr ''whisper-1'' | Some v \<Rightarrow> v,
          case map_of kvs ''text_model'' of None \<Rightarrow> JStr ''gpt-4o-mini'' | Some v \<Rightarrow> v)"
  by (simp add: preferences_def get_openai_api_key_def get_whisper_model_def
      get_text_model_def)

text \<open>
  C3. The claim: for every state of the preferences file (absent, unreadable, corrupt,
  any content) loading never fails and all three fields have a value. The code breaks
  it at two kinds of file. A file that exists and cannot be opened for reading makes
  \<^verbatim>\<open>open\<close> raise an \<^verbatim>\<open>OSError\<close> the \<^verbatim>\<open>except\<close> clause does not list: the constructor
  of the manager, and of the window, fails. A file holding JSON that is not an object
  (here \<^verbatim>\<open>[]\<close>) is loaded as it is, and every getter then raises \<^verbatim>\<open>AttributeError\<close>:
  the window's constructor, which reads the credential, fails.
\<close>

theorem load_config_fails:
  "ConfigManager_init
     \<lparr>dir_exists = True, mkdir_error = None,
      config_file = Unreadable ''Permission denied'', write_error = None,
      not_found_error = example_not_found\<rparr>
     = Inl (Raise OSError ''Permission denied'')
   \<and> ConfigManager_init
       \<lparr>dir_exists = True, mkdir_error = None,
        config_file = Document (JArr []), write_error = None,
        not_found_error = example_not_found\<rparr>
     = Inr (\<lparr>config = JArr []\<rparr>,
            \<lparr>dir_exists = True, mkdir_error = None,
             config_file = Document (JArr []), write_error = None,
             not_found_error = example_not_found\<rparr>)
   \<and> get_openai_api_key \<lparr>config = JArr []\<rparr> = Inl (no_attribute (JArr []) ''get'')
   \<and> get_whisper_model \<lparr>config = JArr []\<rparr> = Inl (no_attribute (JArr []) ''get'')
   \<and> get_text_model \<lparr>config = JArr []\<rparr> = Inl (no_attribute (JArr []) ''get'')
   \<and> MainWindow_init
       \<lparr>dir_exists = True, mkdir_error = None,
        config_file = Document (JArr []), write_error = None,
        not_found_error = example_not_found\<rparr>
     = Inl (no_attribute (JArr []) ''get'')"
  by (simp add: ConfigManager_init_def MainWindow_init_def ensure_config_dir_def
      load_config_def load_config_try_def get_openai_api_key_def get_whisper_model_def
      get_text_model_def)

text \<open>
  C8. Preference persistence round-trips: whenever \<^verbatim>\<open>save_config\<close> succeeds, loading
  from the disk it leaves yields the very configuration saved (a manager constructed
  then is identical to the one that saved), and saving that again leaves the disk as
  it is.
\<close>

theorem preference_roundtrip:
  assumes "save_config cm d = Inr d'"
  shows "load_config d' = Inr (config cm)
       \<and> ConfigManager_init d' = Inr (cm, d')
       \<and> save_config cm d' = Inr d'"
proof -
  from save_config_Inr [OF assms]
  have dir: "dir_exists d'" and wr: "write_error d' = None"
    and doc: "config_file d' = Document (config cm)"
    by simp_all
  have load: "load_config d' = Inr (config cm)"
    by (rule load_config_Document [OF doc])
  have init: "ConfigManager_init d' = Inr (cm, d')"
    using dir load by (simp add: ConfigManager_init_def ensure_config_dir_def)
  have "d'\<lparr>config_file := Document (config cm)\<rparr> = d'"
    using doc by simp
  then have again: "save_config cm d' = Inr d'"
    using dir wr by (simp add: save_config_def)
  from load init again show ?thesis by simp
qed

theorem preference_roundtrip_witness:
  "save_config \<lparr>config = JObj [(''openai_api_key'', JStr ''sk-1'')]\<rparr>
     \<lparr>dir_exists = True, mkdir_error = None, config_file = Absent, write_error = None,
      not_found_error = example_not_found\<rparr>
     = Inr \<lparr>dir_exists = True, mkdir_error = None,
            config_file = Document (JObj [(''openai_api_key'', JStr ''sk-1'')]),
            write_error = None,
            not_found_error = example_not_found\<rparr>
   \<and> ConfigManager_init
       \<lparr>dir_exists = True, mkdir_error = None,
        config_file = Document (JObj [(''openai_api_key'', JStr ''sk-1'')]),
        write_error = None,
        not_found_error = example_not_found\<rparr>
     = Inr (\<lparr>config = JObj [(''openai_api_key'', JStr ''sk-1'')]\<rparr>,
            \<lparr>dir_exists = True, mkdir_error = None,
             config_file = Document (JObj [(''openai_api_key'', JStr ''sk-1'')]),
             write_error = None,
             not_found_error = example_not_found\<rparr>)"
proof -
  have h: "save_config \<lparr>config = JObj [(''openai_api_key'', JStr ''sk-1'')]\<rparr>
     \<lparr>dir_exists = True, mkdir_error = None, config_file = Absent, write_error = None,
      not_found_error = example_not_found\<rparr>
     = Inr \<lparr>dir_exists = True, mkdir_error = None,
            config_file = Document (JObj [(''openai_api_key'', JStr ''sk-1'')]),
            write_error = None,
            not_found_error = example_not_found\<rparr>"
    by (simp add: save_config_def)
  from h preference_roundtrip [OF h] show ?thesis by simp
qed

text \<open>
  C10, as amended. Each setter changes only its own field of the record in memory:
  whatever the prior configuration, the value and the disk, and whether the call
  succeeds or raises, the two other getters answer after the call what they answered
  before it. Of the persisted record it changes only its own field when the file and the
  configuration in memory agree before the call, as they do after loading and after
  every setter that succeeded, and the call succeeds: the two other persisted fields
  are then as they were, the setter's own field holds the value given, and file and
  memory agree again.
\<close>

theorem setters_frame:
  assumes "set_openai_api_key cm v1 d1 = (r1, cm1, e1)"
    and "set_whisper_model cm v2 d2 = (r2, cm2, e2)"
    and "set_text_model cm v3 d3 = (r3, cm3, e3)"
  shows "get_whisper_model cm1 = get_whisper_model cm
       \<and> get_text_model cm1 = get_text_model cm
       \<and> get_openai_api_key cm2 = get_openai_api_key cm
       \<and> get_text_model cm2 = get_text_model cm
       \<and> get_openai_api_key cm3 = get_openai_api_key cm
       \<and> get_whisper_model cm3 = get_whisper_model cm
       \<and> (load_config d1 = Inr (config cm) \<and> r1 = Inr () \<longrightarrow>
              persisted get_whisper_model e1 = persisted get_whisper_model d1
            \<and> persisted get_text_model e1 = persisted get_text_model d1
            \<and> persisted get_openai_api_key e1 = Inr v1
            \<and> load_config e1 = Inr (config cm1))
       \<and> (load_config d2 = Inr (config cm) \<and> r2 = Inr () \<longrightarrow>
              persisted get_openai_api_key e2 = persisted get_openai_api_key d2
            \<and> persisted get_text_model e2 = persisted get_text_model d2
            \<and> persisted get_whisper_model e2 = Inr v2
            \<and> load_config e2 = Inr (config cm2))
       \<and> (load_config d3 = Inr (config cm) \<and> r3 = Inr () \<longrightarrow>
              persisted get_openai_api_key e3 = persisted get_openai_api_key d3
            \<and> persisted get_whisper_model e3 = persisted get_whisper_model d3
            \<and> persisted get_text_model e3 = Inr v3
            \<and> load_config e3 = Inr (config cm3))"
proof -
  have rec: "\<lparr>config = config m\<rparr> = m" for m :: ConfigManager
    by simp
  have k: "get_whisper_model cm1 = get_whisper_model cm
         \<and> get_text_model cm1 = get_text_model cm
         \<and> (r1 = Inr () \<longrightarrow> load_config e1 = Inr (config cm1)
                \<and> get_openai_api_key cm1 = Inr v1)"
    using assms(1)
    by (auto simp: set_openai_api_key_def get_whisper_model_def get_text_model_def
        get_openai_api_key_def py_get_setitem_other py_get_setitem_same
        load_config_Document dest!: save_config_Inr split: sum.splits)
  have w: "get_openai_api_key cm2 = get_openai_api_key cm
         \<and> get_text_model cm2 = get_text_model cm
         \<and> (r2 = Inr () \<longrightarrow> load_config e2 = Inr (config cm2)
                \<and> get_whisper_model cm2 = Inr v2)"
    using assms(2)
    by (auto simp: set_whisper_model_def get_openai_api_key_def get_text_model_def
        get_whisper_model_def py_get_setitem_other py_get_setitem_same
        load_config_Document dest!: save_config_Inr split: sum.splits)
  have t: "get_openai_api_key cm3 = get_openai_api_key cm
         \<and> get_whisper_model cm3 = get_whisper_model cm
         \<and> (r3 = Inr () \<longrightarrow> load_config e3 = Inr (config cm3)
                \<and> get_text_model cm3 = Inr v3)"
    using assms(3)
    by (auto simp: set_text_model_def get_openai_api_key_def get_whisper_model_def
        get_text_model_def py_get_setitem_other py_get_setitem_same
        load_config_Document dest!: save_config_Inr split: sum.splits)
  from k w t show ?thesis
    by (simp add: persisted_def rec)
qed

theorem setters_frame_witness:
  "load_config example_disk = Inr (config example_manager)
   \<and> set_openai_api_key example_manager (JStr ''sk-2'') example_disk
     = (Inr (),
        \<lparr>config = JObj [(''openai_api_key'', JStr ''sk-2'')]\<rparr>,
        example_disk\<lparr>config_file := Document (JObj [(''openai_api_key'', JStr ''sk-2'')])\<rparr>)
   \<and> set_whisper_model example_manager (JStr ''gpt-4o-transcribe'') example_disk
     = (Inr (),
        \<lparr>config = JObj [(''openai_api_key'', JStr ''sk-1''),
                        (''whisper_model'', JStr ''gpt-4o-transcribe'')]\<rparr>,
        example_disk\<lparr>config_file := Document
          (JObj [(''openai_api_key'', JStr ''sk-1''),
                 (''whisper_model'', JStr ''gpt-4o-transcribe'')])\<rparr>)
   \<and> set_text_model example_manager (JStr ''gpt-4o'') example_disk
     = (Inr (),
        \<lparr>config = JObj [(''openai_api_key'', JStr ''sk-1''),
                        (''text_model'', JStr ''gpt-4o'')]\<rparr>,
        example_disk\<lparr>config_file := Document
          (JObj [(''openai_api_key'', JStr ''sk-1''),
                 (''text_model'', JStr ''gpt-4o'')])\<rparr>)
   \<and> persisted get_whisper_model
         (example_disk\<lparr>config_file := Document (JObj [(''openai_api_key'', JStr ''sk-2'')])\<rparr>)
       = persisted get_whisper_model example_disk
   \<and> persisted get_text_model
         (example_disk\<lparr>config_file := Document (JObj [(''openai_api_key'', JStr ''sk-2'')])\<rparr>)
       = persisted get_text_model example_disk
   \<and> persisted get_openai_api_key
         (example_disk\<lparr>config_file := Document (JObj [(''openai_api_key'', JStr ''sk-2'')])\<rparr>)
       = Inr (JStr ''sk-2'')
   \<and> persisted get_openai_api_key
         (example_disk\<lparr>config_file := Document
            (JObj [(''openai_api_key'', JStr ''sk-1''),
                   (''whisper_model'', JStr ''gpt-4o-transcribe'')])\<rparr>)
       = persisted get_openai_api_key example_disk
   \<and> persisted get_openai_api_key
         (example_disk\<lparr>config_file := Document
            (JObj [(''openai_api_key'', JStr ''sk-1''),
                   (''text_model'', JStr ''gpt-4o'')])\<rparr>)
       = persisted get_openai_api_key example_disk
   \<and> persisted get_openai_api_key example_disk = Inr (JStr ''sk-1'')"
proof -
  have s: "load_config example_disk = Inr (config example_manager)"
    by (simp add: load_config_def load_config_try_def example_disk_def example_manager_def)
  have k: "set_openai_api_key example_manager (JStr ''sk-2'') example_disk
     = (Inr (),
        \<lparr>config = JObj [(''openai_api_key'', JStr ''sk-2'')]\<rparr>,
        example_disk\<lparr>config_file := Document (JObj [(''openai_api_key'', JStr ''sk-2'')])\<rparr>)"
    by (simp add: set_openai_api_key_def example_manager_def example_disk_def save_config_def)
  have w: "set_whisper_model example_manager (JStr ''gpt-4o-transcribe'') example_disk
     = (Inr (),
        \<lparr>config = JObj [(''openai_api_key'', JStr ''sk-1''),
                        (''whisper_model'', JStr ''gpt-4o-transcribe'')]\<rparr>,
        example_disk\<lparr>config_file := Document
          (JObj [(''openai_api_key'', JStr ''sk-1''),
                 (''whisper_model'', JStr ''gpt-4o-transcribe'')])\<rparr>)"
    by (simp add: set_whisper_model_def example_manager_def example_disk_def save_config_def)
  have t: "set_text_model example_manager (JStr ''gpt-4o'') example_disk
     = (Inr (),
        \<lparr>config = JObj [(''openai_api_key'', JStr ''sk-1''),
                        (''text_model'', JStr ''gpt-4o'')]\<rparr>,
        example_disk\<lparr>config_file := Document
          (JObj [(''openai_api_key'', JStr ''sk-1''),
                 (''text_model'', JStr ''gpt-4o'')])\<rparr>)"
    by (simp add: set_text_model_def example_manager_def example_disk_def save_config_def)
  have p: "persisted get_openai_api_key example_disk = Inr (JStr ''sk-1'')"
    by (simp add: persisted_def load_config_def load_config_try_def example_disk_def
        get_openai_api_key_def)
  from s k w t p setters_frame [OF k w t] show ?thesis by simp
qed

text \<open>
  The claim as stated fails where file and memory differ, for a setter writes the whole
  configuration in memory. With the defaults in memory and a file holding the
  credential \<^verbatim>\<open>sk-1\<close>, setting the transcription model replaces the persisted credential
  by the empty one. The difference arises within one run: on the manager constructed
  on the disk, setting the credential to \<^verbatim>\<open>sk-2\<close> while the file cannot be opened for
  writing raises and leaves \<^verbatim>\<open>sk-2\<close> in memory and \<^verbatim>\<open>sk-1\<close> in the file; setting the
  transcription model once the file can be written makes the persisted credential
  \<^verbatim>\<open>sk-2\<close>.
\<close>

theorem setters_frame_counterexample:
  "persisted get_openai_api_key example_disk = Inr (JStr ''sk-1'')
   \<and> fst (set_whisper_model \<lparr>config = default_config\<rparr> (JStr ''gpt-4o-transcribe'') example_disk)
       = Inr ()
   \<and> persisted get_openai_api_key
         (snd (snd (set_whisper_model \<lparr>config = default_config\<rparr> (JStr ''gpt-4o-transcribe'')
            example_disk)))
       = Inr (JStr '''')
   \<and> ConfigManager_init readonly_disk = Inr (example_manager, readonly_disk)
   \<and> set_openai_api_key example_manager (JStr ''sk-2'') readonly_disk
       = (Inl (Raise OSError example_denied),
          \<lparr>config = JObj [(''openai_api_key'', JStr ''sk-2'')]\<rparr>,
          readonly_disk)
   \<and> readonly_disk\<lparr>write_error := None\<rparr> = example_disk
   \<and> fst (set_whisper_model \<lparr>config = JObj [(''openai_api_key'', JStr ''sk-2'')]\<rparr>
            (JStr ''gpt-4o-transcribe'') example_disk)
       = Inr ()
   \<and> persisted get_openai_api_key
         (snd (snd (set_whisper_model \<lparr>config = JObj [(''openai_api_key'', JStr ''sk-2'')]\<rparr>
            (JStr ''gpt-4o-transcribe'') example_disk)))
       = Inr (JStr ''sk-2'')"
  by (simp add: persisted_def load_config_def load_config_try_def example_disk_def
      readonly_disk_def example_manager_def default_config_def get_openai_api_key_def
      set_whisper_model_def set_openai_api_key_def save_config_def ConfigManager_init_def
      ensure_config_dir_def)

section \<open>Properties of the inference client\<close>

lemma OpenAIService_init_no_client: "\<not> truthy k \<Longrightarrow> client (OpenAIService_init k) = None"
  by (simp add: OpenAIService_init_def)

lemma OpenAIService_init_client: "truthy k \<Longrightarrow> client (OpenAIService_init k) = Some (OpenAI k)"
  by (simp add: OpenAIService_init_def set_api_key_def)

text \<open>
  C1, as amended. With a client and a readable audio file, \<^verbatim>\<open>transcribe_audio\<close> makes
  exactly one call: the chat-style call with the audio embedded exactly when the model
  identifier starts with \<^verbatim>\<open>gpt-4o\<close> and contains \<^verbatim>\<open>transcribe\<close>, and the call on the
  dedicated speech-to-text endpoint for every other identifier.
\<close>

theorem transcribe_routing:
  assumes "client s = Some c" and "open_rb w file_path = Inr audio"
  shows "fst (OpenAIService_transcribe_audio w s file_path (JStr name)) =
           (if startswith name ''gpt-4o'' \<and> contains name ''transcribe''
            then [ChatCompletionsCreate c (transcribe_request (JStr name) audio)]
            else [AudioTranscriptionsCreate c (JStr name) audio])"
  using assms
  by (simp add: OpenAIService_transcribe_audio_def transcribe_audio_try_def
      split: prod.splits sum.splits)

theorem transcribe_routing_witness:
  "fst (OpenAIService_transcribe_audio (example_world ''{}'') (OpenAIService_init (JStr ''sk-1''))
          ''/tmp/a.mp3'' (JStr ''gpt-4o-mini-transcribe''))
     = [ChatCompletionsCreate (OpenAI (JStr ''sk-1''))
          (transcribe_request (JStr ''gpt-4o-mini-transcribe'') [82, 73, 70, 70])]
   \<and> fst (OpenAIService_transcribe_audio (example_world ''{}'') (OpenAIService_init (JStr ''sk-1''))
          ''/tmp/a.mp3'' (JStr ''whisper-1''))
     = [AudioTranscriptionsCreate (OpenAI (JStr ''sk-1'')) (JStr ''whisper-1'') [82, 73, 70, 70]]"
proof -
  have c: "client (OpenAIService_init (JStr ''sk-1'')) = Some (OpenAI (JStr ''sk-1''))"
    by (simp add: OpenAIService_init_client)
  have f: "open_rb (example_world ''{}'') ''/tmp/a.mp3'' = Inr [82, 73, 70, 70]"
    by (simp add: example_world_def)
  from transcribe_routing [OF c f, of "''gpt-4o-mini-transcribe''"]
    transcribe_routing [OF c f, of "''whisper-1''"]
  show ?thesis by simp
qed

text \<open>
  The claim as stated fails: \<^verbatim>\<open>x-gpt-4o-transcribe\<close> contains both \<^verbatim>\<open>gpt-4o\<close> and
  \<^verbatim>\<open>transcribe\<close>, and is sent to the dedicated endpoint.
\<close>

theorem transcribe_routing_counterexample:
  "contains ''x-gpt-4o-transcribe'' ''gpt-4o''
   \<and> contains ''x-gpt-4o-transcribe'' ''transcribe''
   \<and> fst (OpenAIService_transcribe_audio (example_world ''{}'')
            (OpenAIService_init (JStr ''sk-1'')) ''/tmp/a.mp3'' (JStr ''x-gpt-4o-transcribe''))
       = [AudioTranscriptionsCreate (OpenAI (JStr ''sk-1'')) (JStr ''x-gpt-4o-transcribe'')
            [82, 73, 70, 70]]"
  by (simp add: OpenAIService_transcribe_audio_def transcribe_audio_try_def
      OpenAIService_init_def set_api_key_def example_world_def)

text \<open>
  The guard itself: a service that holds no client raises, in each of the three
  operations, the exception with the text \<^verbatim>\<open>API key not set. ...\<close> and has made no call
  on the network. A service constructed with an empty key holds no client.
\<close>

lemma credential_guard:
  assumes "client s = None"
  shows "OpenAIService_transcribe_audio w s file_path m
           = ([], Inl (Raise Exception
                ''API key not set. Please set your OpenAI API key in settings.''))
       \<and> OpenAIService_clean_text w s text tm
           = ([], Inl (Raise Exception
                ''API key not set. Please set your OpenAI API key in settings.''))
       \<and> OpenAIService_generate_title w s text tm
           = ([], Inl (Raise Exception
                ''API key not set. Please set your OpenAI API key in settings.''))"
  using assms
  by (simp add: OpenAIService_transcribe_audio_def OpenAIService_clean_text_def
      OpenAIService_generate_title_def api_key_not_set_def)

lemma credential_guard_fresh:
  "client (OpenAIService_init (JStr '''')) = None
   \<and> OpenAIService_transcribe_audio (example_world ''{}'') (OpenAIService_init (JStr ''''))
         ''/tmp/a.mp3'' (JStr ''whisper-1'')
       = ([], Inl (Raise Exception
            ''API key not set. Please set your OpenAI API key in settings.''))
   \<and> OpenAIService_clean_text (example_world ''{}'') (OpenAIService_init (JStr ''''))
         ''some text'' (JStr ''gpt-4o-mini'')
       = ([], Inl (Raise Exception
            ''API key not set. Please set your OpenAI API key in settings.''))
   \<and> OpenAIService_generate_title (example_world ''{}'') (OpenAIService_init (JStr ''''))
         ''some text'' (JStr ''gpt-4o-mini'')
       = ([], Inl (Raise Exception
            ''API key not set. Please set your OpenAI API key in settings.''))"
proof -
  have c: "client (OpenAIService_init (JStr '''')) = None"
    by (simp add: OpenAIService_init_no_client)
  from c credential_guard [OF c, of "example_world ''{}''" "''/tmp/a.mp3''" "JStr ''whisper-1''"
      "''some text''" "JStr ''gpt-4o-mini''"]
  show ?thesis by simp
qed

text \<open>
  C2. The claim: whenever no credential is set, each of the three operations fails with
  the text \<^verbatim>\<open>API key not set. ...\<close> before any call on the network. The code breaks it
  after \<^verbatim>\<open>set_api_key\<close> with an empty key, which is what the settings dialog passes when
  it is accepted with the key field empty. The constructor builds a client only for a
  key that is true; \<^verbatim>\<open>set_api_key\<close> builds one for any key. The service then holds the
  empty credential and a client, the guard passes, and each operation calls the
  network: where the call is refused, the caller gets the wrapped text of that failure
  and not the text of the guard; where it is answered, the operation returns.
\<close>

theorem credential_guard_gap:
  "api_key (set_api_key (OpenAIService_init (JStr '''')) (JStr '''')) = JStr ''''
   \<and> truthy (JStr '''') = False
   \<and> client (set_api_key (OpenAIService_init (JStr '''')) (JStr '''')) = Some (OpenAI (JStr ''''))
   \<and> set_api_key (OpenAIService_init (JStr ''sk-1'')) (JStr '''')
       = set_api_key (OpenAIService_init (JStr '''')) (JStr '''')
   \<and> OpenAIService_transcribe_audio failing_world
         (set_api_key (OpenAIService_init (JStr '''')) (JStr ''''))
         ''/tmp/a.mp3'' (JStr ''whisper-1'')
       = ([AudioTranscriptionsCreate (OpenAI (JStr '''')) (JStr ''whisper-1'') [82, 73, 70, 70]],
          Inl (Raise Exception ''Error transcribing audio: Connection error.''))
   \<and> OpenAIService_clean_text failing_world
         (set_api_key (OpenAIService_init (JStr '''')) (JStr ''''))
         ''some text'' (JStr ''gpt-4o-mini'')
       = ([ChatCompletionsCreate (OpenAI (JStr ''''))
             (clean_request ''some text'' (JStr ''gpt-4o-mini''))],
          Inl (Raise Exception ''Error cleaning text: Connection error.''))
   \<and> OpenAIService_generate_title failing_world
         (set_api_key (OpenAIService_init (JStr '''')) (JStr ''''))
         ''some text'' (JStr ''gpt-4o-mini'')
       = ([ChatCompletionsCreate (OpenAI (JStr ''''))
             (title_request ''some text'' (JStr ''gpt-4o-mini''))],
          Inl (Raise Exception ''Error generating title: Connection error.''))
   \<and> OpenAIService_clean_text (example_world ''{}'')
         (set_api_key (OpenAIService_init (JStr '''')) (JStr ''''))
         ''some text'' (JStr ''gpt-4o-mini'')
       = ([ChatCompletionsCreate (OpenAI (JStr ''''))
             (clean_request ''some text'' (JStr ''gpt-4o-mini''))],
          Inr ''Hello, world.'')"
  by (simp add: OpenAIService_init_def set_api_key_def OpenAIService_transcribe_audio_def
      OpenAIService_clean_text_def OpenAIService_generate_title_def transcribe_audio_try_def
      clean_text_try_def generate_title_try_def failing_world_def example_world_def
      clean_request_def)

text \<open>
  C5. When the answer to the title request parses as a JSON object, \<^verbatim>\<open>generate_title\<close>
  returns the pair of its \<^verbatim>\<open>title\<close> and \<^verbatim>\<open>filename\<close> fields, with \<^verbatim>\<open>Untitled\<close> for a
  missing title and \<^verbatim>\<open>untitled\<close> for a missing file name; it does not fail.
\<close>

theorem generate_title_fallbacks:
  assumes "client s = Some c"
    and "chat_completions_create w c (title_request text m) = Inr answer"
    and "json_loads w answer = Inr (JObj kvs)"
  shows "snd (OpenAIService_generate_title w s text m) =
           Inr (case map_of kvs ''title'' of None \<Rightarrow> JStr ''Untitled'' | Some v \<Rightarrow> v,
                case map_of kvs ''filename'' of None \<Rightarrow> JStr ''untitled'' | Some v \<Rightarrow> v)"
  using assms
  by (simp add: OpenAIService_generate_title_def generate_title_try_def)

theorem generate_title_fallbacks_witness:
  "snd (OpenAIService_generate_title (example_world ''{\"title\": \"Notes\"}'')
          (OpenAIService_init (JStr ''sk-1'')) ''some text'' (JStr ''gpt-4o-mini''))
     = Inr (JStr ''Notes'', JStr ''untitled'')
   \<and> snd (OpenAIService_generate_title (example_world ''{}'')
          (OpenAIService_init (JStr ''sk-1'')) ''some text'' (JStr ''gpt-4o-mini''))
     = Inr (JStr ''Untitled'', JStr ''untitled'')"
proof -
  have c: "client (OpenAIService_init (JStr ''sk-1'')) = Some (OpenAI (JStr ''sk-1''))"
    by (simp add: OpenAIService_init_client)
  have a1: "chat_completions_create (example_world ''{\"title\": \"Notes\"}'')
              (OpenAI (JStr ''sk-1'')) (title_request ''some text'' (JStr ''gpt-4o-mini''))
            = Inr ''{\"title\": \"Notes\"}''"
    by (simp add: example_world_def title_request_def)
  have l1: "json_loads (example_world ''{\"title\": \"Notes\"}'') ''{\"title\": \"Notes\"}''
            = Inr (JObj [(''title'', JStr ''Notes'')])"
    by (simp add: example_world_def)
  have a2: "chat_completions_create (example_world ''{}'')
              (OpenAI (JStr ''sk-1'')) (title_request ''some text'' (JStr ''gpt-4o-mini''))
            = Inr ''{}''"
    by (simp add: example_world_def title_request_def)
  have l2: "json_loads (example_world ''{}'') ''{}'' = Inr (JObj [])"
    by (simp add: example_world_def)
  from generate_title_fallbacks [OF c a1 l1] generate_title_fallbacks [OF c a2 l2]
  show ?thesis by simp
qed

text \<open>
  Where the failures inside the three \<^verbatim>\<open>try\<close> blocks come from: opening the audio
  file, an endpoint, \<^verbatim>\<open>json.loads\<close>, or a method a value does not have. Each block
  calls the network at most once.
\<close>

lemma transcribe_audio_try_failure:
  assumes "transcribe_audio_try w c file_path m = (calls, Inl e)"
  shows "(open_rb w file_path = Inl e \<and> calls = [])
       \<or> (\<exists>audio. open_rb w file_path = Inr audio
             \<and> calls = [ChatCompletionsCreate c (transcribe_request m audio)]
             \<and> chat_completions_create w c (transcribe_request m audio) = Inl e)
       \<or> (\<exists>audio. open_rb w file_path = Inr audio
             \<and> calls = [AudioTranscriptionsCreate c m audio]
             \<and> audio_transcriptions_create w c m audio = Inl e)
       \<or> (e = no_attribute m ''startswith'' \<and> calls = [])"
  using assms
  by (auto simp: transcribe_audio_try_def split: json.splits if_splits sum.splits)

lemma clean_text_try_failure:
  assumes "clean_text_try w c text m = (calls, Inl e)"
  shows "calls = [ChatCompletionsCreate c (clean_request text m)]
       \<and> chat_completions_create w c (clean_request text m) = Inl e"
  using assms by (auto simp: clean_text_try_def)

lemma generate_title_try_failure:
  assumes "generate_title_try w c text m = (calls, Inl e)"
  shows "calls = [ChatCompletionsCreate c (title_request text m)]
       \<and> (chat_completions_create w c (title_request text m) = Inl e
          \<or> (\<exists>answer. chat_completions_create w c (title_request text m) = Inr answer
                \<and> (json_loads w answer = Inl e
                   \<or> (\<exists>result. json_loads w answer = Inr result
                         \<and> e = no_attribute result ''get''))))"
  using assms
  by (cases "chat_completions_create w c (title_request text m)")
     (auto simp: generate_title_try_def split: sum.splits elim!: py_get.elims)

lemma transcribe_audio_try_calls: "length (fst (transcribe_audio_try w c file_path m)) \<le> 1"
  by (simp add: transcribe_audio_try_def split: json.splits sum.splits)

text \<open>
  C6. Past the credential guard, whatever exception \<open>e\<close> the body of an operation
  raises reaches the caller as an exception whose text is the text of \<open>e\<close> behind the
  prefix that names the stage; no operation calls the network more than once, and the
  error handler of the window starts no worker.
\<close>

theorem failures_wrapped:
  assumes "client s = Some c"
  shows "(\<forall>calls e. transcribe_audio_try w c file_path m = (calls, Inl e) \<longrightarrow>
            OpenAIService_transcribe_audio w s file_path m
              = (calls, Inl (Raise Exception (''Error transcribing audio: '' @ str e))))
       \<and> (\<forall>calls e. clean_text_try w c text tm = (calls, Inl e) \<longrightarrow>
            OpenAIService_clean_text w s text tm
              = (calls, Inl (Raise Exception (''Error cleaning text: '' @ str e))))
       \<and> (\<forall>calls e. generate_title_try w c text tm = (calls, Inl e) \<longrightarrow>
            OpenAIService_generate_title w s text tm
              = (calls, Inl (Raise Exception (''Error generating title: '' @ str e))))
       \<and> length (fst (OpenAIService_transcribe_audio w s file_path m)) \<le> 1
       \<and> length (fst (OpenAIService_clean_text w s text tm)) \<le> 1
       \<and> length (fst (OpenAIService_generate_title w s text tm)) \<le> 1
       \<and> started (on_error mw error_message) = started mw
       \<and> worker (on_error mw error_message) = worker mw"
proof -
  have t: "length (fst (OpenAIService_transcribe_audio w s file_path m)) \<le> 1"
    using assms transcribe_audio_try_calls [of w c file_path m]
    by (cases "transcribe_audio_try w c file_path m")
       (auto simp: OpenAIService_transcribe_audio_def split: sum.splits)
  have cl: "length (fst (OpenAIService_clean_text w s text tm)) \<le> 1"
    using assms
    by (simp add: OpenAIService_clean_text_def clean_text_try_def split: sum.splits)
  have g: "length (fst (OpenAIService_generate_title w s text tm)) \<le> 1"
    using assms
    by (simp add: OpenAIService_generate_title_def generate_title_try_def split: sum.splits)
  have e: "started (on_error mw error_message) = started mw
         \<and> worker (on_error mw error_message) = worker mw"
    by (simp add: on_error_def)
  from assms t cl g e show ?thesis
    by (simp add: OpenAIService_transcribe_audio_def OpenAIService_clean_text_def
        OpenAIService_generate_title_def)
qed

theorem failures_wrapped_witness:
  "OpenAIService_transcribe_audio failing_world (OpenAIService_init (JStr ''sk-1''))
       ''/tmp/a.mp3'' (JStr ''whisper-1'')
     = ([AudioTranscriptionsCreate (OpenAI (JStr ''sk-1'')) (JStr ''whisper-1'') [82, 73, 70, 70]],
        Inl (Raise Exception ''Error transcribing audio: Connection error.''))
   \<and> OpenAIService_transcribe_audio failing_world (OpenAIService_init (JStr ''sk-1''))
       ''/tmp/b.mp3'' (JStr ''whisper-1'')
     = ([], Inl (Raise Exception ''Error transcribing audio: No such file or directory''))
   \<and> OpenAIService_clean_text failing_world (OpenAIService_init (JStr ''sk-1''))
       ''some text'' (JStr ''gpt-4o-mini'')
     = ([ChatCompletionsCreate (OpenAI (JStr ''sk-1''))
           (clean_request ''some text'' (JStr ''gpt-4o-mini''))],
        Inl (Raise Exception ''Error cleaning text: Connection error.''))
   \<and> OpenAIService_generate_title (example_world ''not json'') (OpenAIService_init (JStr ''sk-1''))
       ''some text'' (JStr ''gpt-4o-mini'')
     = ([ChatCompletionsCreate (OpenAI (JStr ''sk-1''))
           (title_request ''some text'' (JStr ''gpt-4o-mini''))],
        Inl (Raise Exception
          ''Error generating title: Expecting value: line 1 column 1 (char 0)''))"
proof -
  have c: "client (OpenAIService_init (JStr ''sk-1'')) = Some (OpenAI (JStr ''sk-1''))"
    by (simp add: OpenAIService_init_client)
  have t1: "transcribe_audio_try failing_world (OpenAI (JStr ''sk-1''))
              ''/tmp/a.mp3'' (JStr ''whisper-1'')
            = ([AudioTranscriptionsCreate (OpenAI (JStr ''sk-1'')) (JStr ''whisper-1'')
                  [82, 73, 70, 70]],
               Inl (Raise APIError ''Connection error.''))"
    by (simp add: transcribe_audio_try_def failing_world_def)
  have t2: "transcribe_audio_try failing_world (OpenAI (JStr ''sk-1''))
              ''/tmp/b.mp3'' (JStr ''whisper-1'')
            = ([], Inl (Raise FileNotFoundError ''No such file or directory''))"
    by (simp add: transcribe_audio_try_def failing_world_def)
  have t3: "clean_text_try failing_world (OpenAI (JStr ''sk-1''))
              ''some text'' (JStr ''gpt-4o-mini'')
            = ([ChatCompletionsCreate (OpenAI (JStr ''sk-1''))
                  (clean_request ''some text'' (JStr ''gpt-4o-mini''))],
               Inl (Raise APIError ''Connection error.''))"
    by (simp add: clean_text_try_def failing_world_def)
  have t4: "generate_title_try (example_world ''not json'') (OpenAI (JStr ''sk-1''))
              ''some text'' (JStr ''gpt-4o-mini'')
            = ([ChatCompletionsCreate (OpenAI (JStr ''sk-1''))
                  (title_request ''some text'' (JStr ''gpt-4o-mini''))],
               Inl (Raise JSONDecodeError ''Expecting value: line 1 column 1 (char 0)''))"
    by (simp add: generate_title_try_def example_world_def title_request_def)
  from failures_wrapped [OF c, of failing_world "''/tmp/a.mp3''" "JStr ''whisper-1''"
      "''some text''" "JStr ''gpt-4o-mini''"] t1 t3
  have a: "OpenAIService_transcribe_audio failing_world (OpenAIService_init (JStr ''sk-1''))
       ''/tmp/a.mp3'' (JStr ''whisper-1'')
     = ([AudioTranscriptionsCreate (OpenAI (JStr ''sk-1'')) (JStr ''whisper-1'') [82, 73, 70, 70]],
        Inl (Raise Exception ''Error transcribing audio: Connection error.''))
   \<and> OpenAIService_clean_text failing_world (OpenAIService_init (JStr ''sk-1''))
       ''some text'' (JStr ''gpt-4o-mini'')
     = ([ChatCompletionsCreate (OpenAI (JStr ''sk-1''))
           (clean_request ''some text'' (JStr ''gpt-4o-mini''))],
        Inl (Raise Exception ''Error cleaning text: Connection error.''))"
    by simp
  from failures_wrapped [OF c, of failing_world "''/tmp/b.mp3''" "JStr ''whisper-1''"] t2
  have b: "OpenAIService_transcribe_audio failing_world (OpenAIService_init (JStr ''sk-1''))
       ''/tmp/b.mp3'' (JStr ''whisper-1'')
     = ([], Inl (Raise Exception ''Error transcribing audio: No such file or directory''))"
    by simp
  from failures_wrapped [OF c, of "example_world ''not json''" _ _ "''some text''"
      "JStr ''gpt-4o-mini''"] t4
  have d: "OpenAIService_generate_title (example_world ''not json'')
       (OpenAIService_init (JStr ''sk-1'')) ''some text'' (JStr ''gpt-4o-mini'')
     = ([ChatCompletionsCreate (OpenAI (JStr ''sk-1''))
           (title_request ''some text'' (JStr ''gpt-4o-mini''))],
        Inl (Raise Exception
          ''Error generating title: Expecting value: line 1 column 1 (char 0)''))"
    by simp
  from a b d show ?thesis by simp
qed

section \<open>Properties of the window\<close>

lemma MainWindow_init_fresh:
  "MainWindow_init fresh_disk = Inr (fresh_window, fresh_disk\<lparr>dir_exists := True\<rparr>)"
  by (simp add: MainWindow_init_def ConfigManager_init_def ensure_config_dir_def
      load_config_def fresh_disk_def fresh_window_def default_config_def
      get_openai_api_key_def get_whisper_model_def OpenAIService_init_def)

text \<open>
  C4, as amended. A trigger whose precondition is unmet starts no worker (so no call on
  the network is made) and leaves the session as it is. The cleaning and the title
  trigger show a warning when the transcript is empty, and all three show one when the
  credential is absent. The transcription trigger with no file selected returns at
  once and shows nothing.
\<close>

theorem unmet_preconditions:
  "(selected_file_path mw = None \<or> selected_file_path mw = Some [] \<longrightarrow>
      MainWindow_transcribe_audio mw = Inr mw)
   \<and> (\<forall>p k. selected_file_path mw = Some p \<and> p \<noteq> []
         \<and> get_openai_api_key (config_manager mw) = Inr k \<and> \<not> truthy k \<longrightarrow>
      turned_down mw (MainWindow_transcribe_audio mw)
        (Warning ''API Key Required''
           ''Please set your OpenAI API key in Settings before transcribing.''))
   \<and> (transcribed_text mw = [] \<longrightarrow>
      turned_down mw (MainWindow_clean_text mw)
        (Warning ''No Text'' ''Please transcribe an audio file first.''))
   \<and> (\<forall>k. transcribed_text mw \<noteq> []
         \<and> get_openai_api_key (config_manager mw) = Inr k \<and> \<not> truthy k \<longrightarrow>
      turned_down mw (MainWindow_clean_text mw)
        (Warning ''API Key Required''
           ''Please set your OpenAI API key in Settings before cleaning text.''))
   \<and> (transcribed_text mw = [] \<longrightarrow>
      turned_down mw (MainWindow_generate_title mw)
        (Warning ''No Text'' ''Please transcribe an audio file first.''))
   \<and> (\<forall>k. transcribed_text mw \<noteq> []
         \<and> get_openai_api_key (config_manager mw) = Inr k \<and> \<not> truthy k \<longrightarrow>
      turned_down mw (MainWindow_generate_title mw)
        (Warning ''API Key Required''
           ''Please set your OpenAI API key in Settings before generating a title.''))"
proof -
  have tr0: "selected_file_path mw = None \<or> selected_file_path mw = Some [] \<longrightarrow>
      MainWindow_transcribe_audio mw = Inr mw"
    by (auto simp: MainWindow_transcribe_audio_def)
  have tr1: "\<forall>p k. selected_file_path mw = Some p \<and> p \<noteq> []
         \<and> get_openai_api_key (config_manager mw) = Inr k \<and> \<not> truthy k \<longrightarrow>
      turned_down mw (MainWindow_transcribe_audio mw)
        (Warning ''API Key Required''
           ''Please set your OpenAI API key in Settings before transcribing.'')"
    by (simp add: MainWindow_transcribe_audio_def turned_down_def session_def)
  have cl0: "transcribed_text mw = [] \<longrightarrow>
      turned_down mw (MainWindow_clean_text mw)
        (Warning ''No Text'' ''Please transcribe an audio file first.'')"
    by (simp add: MainWindow_clean_text_def turned_down_def session_def)
  have cl1: "\<forall>k. transcribed_text mw \<noteq> []
         \<and> get_openai_api_key (config_manager mw) = Inr k \<and> \<not> truthy k \<longrightarrow>
      turned_down mw (MainWindow_clean_text mw)
        (Warning ''API Key Required''
           ''Please set your OpenAI API key in Settings before cleaning text.'')"
    by (simp add: MainWindow_clean_text_def turned_down_def session_def)
  have ti0: "transcribed_text mw = [] \<longrightarrow>
      turned_down mw (MainWindow_generate_title mw)
        (Warning ''No Text'' ''Please transcribe an audio file first.'')"
    by (simp add: MainWindow_generate_title_def turned_down_def session_def)
  have ti1: "\<forall>k. transcribed_text mw \<noteq> []
         \<and> get_openai_api_key (config_manager mw) = Inr k \<and> \<not> truthy k \<longrightarrow>
      turned_down mw (MainWindow_generate_title mw)
        (Warning ''API Key Required''
           ''Please set your OpenAI API key in Settings before generating a title.'')"
    by (simp add: MainWindow_generate_title_def turned_down_def session_def)
  from tr0 tr1 cl0 cl1 ti0 ti1 show ?thesis by blast
qed

theorem unmet_preconditions_witness:
  "MainWindow_transcribe_audio fresh_window = Inr fresh_window
   \<and> turned_down (select_audio_file fresh_window ''/tmp/a.mp3'')
       (MainWindow_transcribe_audio (select_audio_file fresh_window ''/tmp/a.mp3''))
       (Warning ''API Key Required''
          ''Please set your OpenAI API key in Settings before transcribing.'')
   \<and> turned_down fresh_window (MainWindow_clean_text fresh_window)
       (Warning ''No Text'' ''Please transcribe an audio file first.'')
   \<and> turned_down (on_transcription_complete fresh_window ''um hello world'')
       (MainWindow_clean_text (on_transcription_complete fresh_window ''um hello world''))
       (Warning ''API Key Required''
          ''Please set your OpenAI API key in Settings before cleaning text.'')
   \<and> turned_down fresh_window (MainWindow_generate_title fresh_window)
       (Warning ''No Text'' ''Please transcribe an audio file first.'')
   \<and> turned_down (on_transcription_complete fresh_window ''um hello world'')
       (MainWindow_generate_title (on_transcription_complete fresh_window ''um hello world''))
       (Warning ''API Key Required''
          ''Please set your OpenAI API key in Settings before generating a title.'')"
proof -
  have a: "selected_file_path fresh_window = None" "transcribed_text fresh_window = []"
    by (simp_all add: fresh_window_def)
  have b: "selected_file_path (select_audio_file fresh_window ''/tmp/a.mp3'') = Some ''/tmp/a.mp3''"
    "get_openai_api_key (config_manager (select_audio_file fresh_window ''/tmp/a.mp3''))
       = Inr (JStr '''')"
    by (simp_all add: fresh_window_def select_audio_file_def get_openai_api_key_def
        default_config_def)
  have c: "transcribed_text (on_transcription_complete fresh_window ''um hello world'')
             = ''um hello world''"
    "get_openai_api_key (config_manager (on_transcription_complete fresh_window ''um hello world''))
       = Inr (JStr '''')"
    by (simp_all add: fresh_window_def on_transcription_complete_def get_openai_api_key_def
        default_config_def)
  from a unmet_preconditions [of fresh_window]
  have 1: "MainWindow_transcribe_audio fresh_window = Inr fresh_window
         \<and> turned_down fresh_window (MainWindow_clean_text fresh_window)
             (Warning ''No Text'' ''Please transcribe an audio file first.'')
         \<and> turned_down fresh_window (MainWindow_generate_title fresh_window)
             (Warning ''No Text'' ''Please transcribe an audio file first.'')"
    by simp
  from b unmet_preconditions [of "select_audio_file fresh_window ''/tmp/a.mp3''"]
  have 2: "turned_down (select_audio_file fresh_window ''/tmp/a.mp3'')
       (MainWindow_transcribe_audio (select_audio_file fresh_window ''/tmp/a.mp3''))
       (Warning ''API Key Required''
          ''Please set your OpenAI API key in Settings before transcribing.'')"
    by simp
  from c unmet_preconditions [of "on_transcription_complete fresh_window ''um hello world''"]
  have 3: "turned_down (on_transcription_complete fresh_window ''um hello world'')
       (MainWindow_clean_text (on_transcription_complete fresh_window ''um hello world''))
       (Warning ''API Key Required''
          ''Please set your OpenAI API key in Settings before cleaning text.'')
   \<and> turned_down (on_transcription_complete fresh_window ''um hello world'')
       (MainWindow_generate_title (on_transcription_complete fresh_window ''um hello world''))
       (Warning ''API Key Required''
          ''Please set your OpenAI API key in Settings before generating a title.'')"
    by simp
  from 1 2 3 show ?thesis by simp
qed

text \<open>
  The claim as stated fails for the transcription trigger with no file selected: on the
  window as constructed, no message box is shown.
\<close>

theorem unmet_preconditions_counterexample:
  "MainWindow_init fresh_disk = Inr (fresh_window, fresh_disk\<lparr>dir_exists := True\<rparr>)
   \<and> selected_file_path fresh_window = None
   \<and> message_boxes fresh_window = []
   \<and> MainWindow_transcribe_audio fresh_window = Inr fresh_window"
  by (simp add: MainWindow_init_fresh)
     (simp add: fresh_window_def MainWindow_transcribe_audio_def)

lemma MainWindow_clean_text_started:
  assumes "MainWindow_clean_text mw = Inr mw1" and "started mw1 = started mw @ [t]"
  shows "\<exists>text_model.
           get_text_model (config_manager mw) = Inr text_model
         \<and> t = \<lparr>task_type = ''clean'', func = Svc_clean_text,
                 args = (transcribed_text mw, text_model),
                 finished_slot = On_cleaning_complete, error_slot = On_error\<rparr>
         \<and> mw1 = mw\<lparr>progress_bar_visible := True,
                     progress_bar_range := (0, 0),
                     status_message := ''Cleaning text...'',
                     worker := Some t,
                     started := started mw @ [t]\<rparr>"
  using assms
  by (auto simp: MainWindow_clean_text_def Let_def split: if_splits sum.splits)

text \<open>
  C7. A cleaning stage that was started and whose call returned changes, of the
  session, the cleaned text only: it becomes the text returned; the transcript, which
  was the input of the call, the title and the file name are as they were before the
  trigger. The slot alone, on any window and text, has the same frame.
\<close>

theorem cleaning_frame:
  assumes "MainWindow_clean_text mw = Inr mw1"
    and "started mw1 = started mw @ [t]"
    and "OpenAIService_clean_text w (openai_service mw1) (fst (args t)) (snd (args t))
           = (calls, Inr cleaned)"
  shows "fst (args t) = transcribed_text mw
       \<and> (\<exists>mw2. finish w mw1 t = (calls, Inr mw2)
             \<and> session mw2
                 = (transcribed_text mw, cleaned, generated_title mw, generated_filename mw))
       \<and> session (on_cleaning_complete mw0 text)
           = (transcribed_text mw0, text, generated_title mw0, generated_filename mw0)"
proof -
  from MainWindow_clean_text_started [OF assms(1,2)]
  obtain text_model where
    t: "t = \<lparr>task_type = ''clean'', func = Svc_clean_text,
             args = (transcribed_text mw, text_model),
             finished_slot = On_cleaning_complete, error_slot = On_error\<rparr>"
    and mw1: "mw1 = mw\<lparr>progress_bar_visible := True,
                       progress_bar_range := (0, 0),
                       status_message := ''Cleaning text...'',
                       worker := Some t,
                       started := started mw @ [t]\<rparr>"
    by blast
  have input: "fst (args t) = transcribed_text mw"
    by (simp add: t)
  have run: "WorkerThread_run w (openai_service mw1) t = (calls, [Finished (PyStr cleaned)])"
    using assms(3) by (simp add: WorkerThread_run_def call_func_def t)
  have fin: "finish w mw1 t = (calls, Inr (on_cleaning_complete mw1 cleaned))"
    by (simp add: finish_def run deliver_def) (simp add: t)
  have ses: "session (on_cleaning_complete mw1 cleaned)
               = (transcribed_text mw, cleaned, generated_title mw, generated_filename mw)"
    by (simp add: session_def on_cleaning_complete_def mw1)
  have slot: "session (on_cleaning_complete mw0 text)
                = (transcribed_text mw0, text, generated_title mw0, generated_filename mw0)"
    by (simp add: session_def on_cleaning_complete_def)
  from input fin ses slot show ?thesis by simp
qed

theorem cleaning_frame_witness:
  "MainWindow_clean_text example_window = Inr cleaning_window
   \<and> started cleaning_window = started example_window @ [clean_worker]
   \<and> OpenAIService_clean_text (example_world ''{}'') (openai_service cleaning_window)
         (fst (args clean_worker)) (snd (args clean_worker))
       = ([ChatCompletionsCreate (OpenAI (JStr ''sk-1''))
             (clean_request ''um hello world'' (JStr ''gpt-4o-mini''))],
          Inr ''Hello, world.'')
   \<and> (\<exists>mw2. finish (example_world ''{}'') cleaning_window clean_worker
               = ([ChatCompletionsCreate (OpenAI (JStr ''sk-1''))
                     (clean_request ''um hello world'' (JStr ''gpt-4o-mini''))],
                  Inr mw2)
            \<and> session mw2 = (''um hello world'', ''Hello, world.'', None, None))"
proof -
  have a: "MainWindow_clean_text example_window = Inr cleaning_window"
    by (simp add: MainWindow_clean_text_def Let_def example_window_def fresh_window_def
        cleaning_window_def clean_worker_def get_openai_api_key_def get_text_model_def)
  have b: "started cleaning_window = started example_window @ [clean_worker]"
    by (simp add: cleaning_window_def example_window_def fresh_window_def)
  have c: "OpenAIService_clean_text (example_world ''{}'') (openai_service cleaning_window)
         (fst (args clean_worker)) (snd (args clean_worker))
       = ([ChatCompletionsCreate (OpenAI (JStr ''sk-1''))
             (clean_request ''um hello world'' (JStr ''gpt-4o-mini''))],
          Inr ''Hello, world.'')"
    by (simp add: OpenAIService_clean_text_def clean_text_try_def cleaning_window_def
        example_window_def fresh_window_def clean_worker_def example_world_def
        clean_request_def)
  have d: "transcribed_text example_window = ''um hello world''"
    "generated_title example_window = None" "generated_filename example_window = None"
    by (simp_all add: example_window_def fresh_window_def)
  from a b c cleaning_frame [OF a b c] d show ?thesis by simp
qed

lemma MainWindow_transcribe_audio_started:
  assumes "MainWindow_transcribe_audio mw = Inr mw1" and "started mw1 = started mw @ [t]"
  shows "func t = Svc_transcribe_audio \<and> finished_slot t = On_transcription_complete
       \<and> error_slot t = On_error"
  using assms
  by (auto simp: MainWindow_transcribe_audio_def Let_def
      split: option.splits if_splits sum.splits)

lemma MainWindow_generate_title_started:
  assumes "MainWindow_generate_title mw = Inr mw1" and "started mw1 = started mw @ [t]"
  shows "func t = Svc_generate_title \<and> finished_slot t = On_title_generation_complete
       \<and> error_slot t = On_error"
  using assms
  by (auto simp: MainWindow_generate_title_def Let_def split: if_splits sum.splits)

lemma finish_transcribe:
  assumes "func t = Svc_transcribe_audio" and "finished_slot t = On_transcription_complete"
    and "error_slot t = On_error"
  shows "(OpenAIService_transcribe_audio w (openai_service mw1) (fst (args t)) (snd (args t))
            = (calls, Inr r) \<longrightarrow>
            WorkerThread_run w (openai_service mw1) t = (calls, [Finished (PyStr r)])
          \<and> finish w mw1 t = (calls, Inr (on_transcription_complete mw1 r)))
       \<and> (OpenAIService_transcribe_audio w (openai_service mw1) (fst (args t)) (snd (args t))
            = (calls, Inl e) \<longrightarrow>
            WorkerThread_run w (openai_service mw1) t = (calls, [Error (str e)])
          \<and> finish w mw1 t = (calls, Inr (on_error mw1 (str e))))"
  using assms by (simp add: finish_def WorkerThread_run_def call_func_def deliver_def)

lemma finish_clean:
  assumes "func t = Svc_clean_text" and "finished_slot t = On_cleaning_complete"
    and "error_slot t = On_error"
  shows "(OpenAIService_clean_text w (openai_service mw1) (fst (args t)) (snd (args t))
            = (calls, Inr r) \<longrightarrow>
            WorkerThread_run w (openai_service mw1) t = (calls, [Finished (PyStr r)])
          \<and> finish w mw1 t = (calls, Inr (on_cleaning_complete mw1 r)))
       \<and> (OpenAIService_clean_text w (openai_service mw1) (fst (args t)) (snd (args t))
            = (calls, Inl e) \<longrightarrow>
            WorkerThread_run w (openai_service mw1) t = (calls, [Error (str e)])
          \<and> finish w mw1 t = (calls, Inr (on_error mw1 (str e))))"
  using assms by (simp add: finish_def WorkerThread_run_def call_func_def deliver_def)

lemma finish_title:
  assumes "func t = Svc_generate_title" and "finished_slot t = On_title_generation_complete"
    and "error_slot t = On_error"
  shows "(OpenAIService_generate_title w (openai_service mw1) (fst (args t)) (snd (args t))
            = (calls, Inr (title, filename)) \<longrightarrow>
            WorkerThread_run w (openai_service mw1) t
              = (calls, [Finished (PyTuple title filename)])
          \<and> finish w mw1 t = (calls, Inr (on_title_generation_complete mw1 (title, filename))))
       \<and> (OpenAIService_generate_title w (openai_service mw1) (fst (args t)) (snd (args t))
            = (calls, Inl e) \<longrightarrow>
            WorkerThread_run w (openai_service mw1) t = (calls, [Error (str e)])
          \<and> finish w mw1 t = (calls, Inr (on_error mw1 (str e))))"
  using assms by (simp add: finish_def WorkerThread_run_def call_func_def deliver_def)

text \<open>
  C9. For the worker each of the three triggers starts, exactly one completion event is
  delivered to the window. When the call of the service returns, the worker emits the
  one signal \<^verbatim>\<open>finished\<close> with the result and the window after the stage is the window
  with the stage's completion handler applied once to that result; when the call
  raises, the worker emits the one signal \<^verbatim>\<open>error\<close> with the text of the exception and
  the window after the stage is the window with \<^verbatim>\<open>on_error\<close> applied once to that text.
  The handlers for success show no message box and the handler for failure leaves
  the session as it is, so the two are never both delivered. Every worker, whatever it
  was built with, emits exactly one signal.
\<close>

theorem one_completion_event:
  "(MainWindow_transcribe_audio mw = Inr mw1 \<and> started mw1 = started mw @ [t] \<longrightarrow>
      (\<forall>calls r.
         OpenAIService_transcribe_audio w (openai_service mw1) (fst (args t)) (snd (args t))
           = (calls, Inr r) \<longrightarrow>
           WorkerThread_run w (openai_service mw1) t = (calls, [Finished (PyStr r)])
         \<and> finish w mw1 t = (calls, Inr (on_transcription_complete mw1 r)))
    \<and> (\<forall>calls e.
         OpenAIService_transcribe_audio w (openai_service mw1) (fst (args t)) (snd (args t))
           = (calls, Inl e) \<longrightarrow>
           WorkerThread_run w (openai_service mw1) t = (calls, [Error (str e)])
         \<and> finish w mw1 t = (calls, Inr (on_error mw1 (str e)))))
   \<and> (MainWindow_clean_text mw = Inr mw1 \<and> started mw1 = started mw @ [t] \<longrightarrow>
      (\<forall>calls r.
         OpenAIService_clean_text w (openai_service mw1) (fst (args t)) (snd (args t))
           = (calls, Inr r) \<longrightarrow>
           WorkerThread_run w (openai_service mw1) t = (calls, [Finished (PyStr r)])
         \<and> finish w mw1 t = (calls, Inr (on_cleaning_complete mw1 r)))
    \<and> (\<forall>calls e.
         OpenAIService_clean_text w (openai_service mw1) (fst (args t)) (snd (args t))
           = (calls, Inl e) \<longrightarrow>
           WorkerThread_run w (openai_service mw1) t = (calls, [Error (str e)])
         \<and> finish w mw1 t = (calls, Inr (on_error mw1 (str e)))))
   \<and> (MainWindow_generate_title mw = Inr mw1 \<and> started mw1 = started mw @ [t] \<longrightarrow>
      (\<forall>calls title filename.
         OpenAIService_generate_title w (openai_service mw1) (fst (args t)) (snd (args t))
           = (calls, Inr (title, filename)) \<longrightarrow>
           WorkerThread_run w (openai_service mw1) t
             = (calls, [Finished (PyTuple title filename)])
         \<and> finish w mw1 t
             = (calls, Inr (on_title_generation_complete mw1 (title, filename))))
    \<and> (\<forall>calls e.
         OpenAIService_generate_title w (openai_service mw1) (fst (args t)) (snd (args t))
           = (calls, Inl e) \<longrightarrow>
           WorkerThread_run w (openai_service mw1) t = (calls, [Error (str e)])
         \<and> finish w mw1 t = (calls, Inr (on_error mw1 (str e)))))
   \<and> message_boxes (on_transcription_complete mw0 text0) = message_boxes mw0
   \<and> message_boxes (on_cleaning_complete mw0 text0) = message_boxes mw0
   \<and> message_boxes (on_title_generation_complete mw0 pair0) = message_boxes mw0
   \<and> session (on_error mw0 text0) = session mw0
   \<and> message_boxes (on_error mw0 text0) = message_boxes mw0 @ [Critical ''Error'' text0]
   \<and> length (snd (WorkerThread_run w s t0)) = 1"
proof -
  have tr: "MainWindow_transcribe_audio mw = Inr mw1 \<and> started mw1 = started mw @ [t] \<longrightarrow>
      (\<forall>calls r.
         OpenAIService_transcribe_audio w (openai_service mw1) (fst (args t)) (snd (args t))
           = (calls, Inr r) \<longrightarrow>
           WorkerThread_run w (openai_service mw1) t = (calls, [Finished (PyStr r)])
         \<and> finish w mw1 t = (calls, Inr (on_transcription_complete mw1 r)))
    \<and> (\<forall>calls e.
         OpenAIService_transcribe_audio w (openai_service mw1) (fst (args t)) (snd (args t))
           = (calls, Inl e) \<longrightarrow>
           WorkerThread_run w (openai_service mw1) t = (calls, [Error (str e)])
         \<and> finish w mw1 t = (calls, Inr (on_error mw1 (str e))))"
    using MainWindow_transcribe_audio_started [of mw mw1 t] finish_transcribe [of t w mw1]
    by blast
  have cl: "MainWindow_clean_text mw = Inr mw1 \<and> started mw1 = started mw @ [t] \<longrightarrow>
      (\<forall>calls r.
         OpenAIService_clean_text w (openai_service mw1) (fst (args t)) (snd (args t))
           = (calls, Inr r) \<longrightarrow>
           WorkerThread_run w (openai_service mw1) t = (calls, [Finished (PyStr r)])
         \<and> finish w mw1 t = (calls, Inr (on_cleaning_complete mw1 r)))
    \<and> (\<forall>calls e.
         OpenAIService_clean_text w (openai_service mw1) (fst (args t)) (snd (args t))
           = (calls, Inl e) \<longrightarrow>
           WorkerThread_run w (openai_service mw1) t = (calls, [Error (str e)])
         \<and> finish w mw1 t = (calls, Inr (on_error mw1 (str e))))"
  proof (intro impI)
    assume a: "MainWindow_clean_text mw = Inr mw1 \<and> started mw1 = started mw @ [t]"
    then obtain text_model where
      "t = \<lparr>task_type = ''clean'', func = Svc_clean_text,
             args = (transcribed_text mw, text_model),
             finished_slot = On_cleaning_complete, error_slot = On_error\<rparr>"
      using MainWindow_clean_text_started [of mw mw1 t] by blast
    then have "func t = Svc_clean_text" "finished_slot t = On_cleaning_complete"
      "error_slot t = On_error"
      by simp_all
    then show "(\<forall>calls r.
         OpenAIService_clean_text w (openai_service mw1) (fst (args t)) (snd (args t))
           = (calls, Inr r) \<longrightarrow>
           WorkerThread_run w (openai_service mw1) t = (calls, [Finished (PyStr r)])
         \<and> finish w mw1 t = (calls, Inr (on_cleaning_complete mw1 r)))
    \<and> (\<forall>calls e.
         OpenAIService_clean_text w (openai_service mw1) (fst (args t)) (snd (args t))
           = (calls, Inl e) \<longrightarrow>
           WorkerThread_run w (openai_service mw1) t = (calls, [Error (str e)])
         \<and> finish w mw1 t = (calls, Inr (on_error mw1 (str e))))"
      using finish_clean [of t w mw1] by blast
  qed
  have ti: "MainWindow_generate_title mw = Inr mw1 \<and> started mw1 = started mw @ [t] \<longrightarrow>
      (\<forall>calls title filename.
         OpenAIService_generate_title w (openai_service mw1) (fst (args t)) (snd (args t))
           = (calls, Inr (title, filename)) \<longrightarrow>
           WorkerThread_run w (openai_service mw1) t
             = (calls, [Finished (PyTuple title filename)])
         \<and> finish w mw1 t
             = (calls, Inr (on_title_generation_complete mw1 (title, filename))))
    \<and> (\<forall>calls e.
         OpenAIService_generate_title w (openai_service mw1) (fst (args t)) (snd (args t))
           = (calls, Inl e) \<longrightarrow>
           WorkerThread_run w (openai_service mw1) t = (calls, [Error (str e)])
         \<and> finish w mw1 t = (calls, Inr (on_error mw1 (str e))))"
    using MainWindow_generate_title_started [of mw mw1 t] finish_title [of t w mw1]
    by blast
  have slots: "message_boxes (on_transcription_complete mw0 text0) = message_boxes mw0
     \<and> message_boxes (on_cleaning_complete mw0 text0) = message_boxes mw0
     \<and> message_boxes (on_title_generation_complete mw0 pair0) = message_boxes mw0
     \<and> session (on_error mw0 text0) = session mw0
     \<and> message_boxes (on_error mw0 text0) = message_boxes mw0 @ [Critical ''Error'' text0]"
    by (simp add: on_transcription_complete_def on_cleaning_complete_def
        on_title_generation_complete_def on_error_def session_def split: prod.splits)
  have one: "length (snd (WorkerThread_run w s t0)) = 1"
    by (cases "call_func w s t0") (simp add: WorkerThread_run_def split: sum.splits)
  from tr cl ti slots one show ?thesis by blast
qed

theorem one_completion_event_witness:
  "MainWindow_transcribe_audio (select_audio_file example_window ''/tmp/a.mp3'')
     = Inr transcribing_window
   \<and> finish (example_world ''{}'') transcribing_window transcribe_worker
     = ([AudioTranscriptionsCreate (OpenAI (JStr ''sk-1'')) (JStr ''whisper-1'') [82, 73, 70, 70]],
        Inr (on_transcription_complete transcribing_window ''hello world''))
   \<and> finish failing_world transcribing_window transcribe_worker
     = ([AudioTranscriptionsCreate (OpenAI (JStr ''sk-1'')) (JStr ''whisper-1'') [82, 73, 70, 70]],
        Inr (on_error transcribing_window ''Error transcribing audio: Connection error.''))
   \<and> MainWindow_clean_text example_window = Inr cleaning_window
   \<and> WorkerThread_run (example_world ''{}'') (openai_service cleaning_window) clean_worker
     = ([ChatCompletionsCreate (OpenAI (JStr ''sk-1''))
           (clean_request ''um hello world'' (JStr ''gpt-4o-mini''))],
        [Finished (PyStr ''Hello, world.'')])
   \<and> finish (example_world ''{}'') cleaning_window clean_worker
     = ([ChatCompletionsCreate (OpenAI (JStr ''sk-1''))
           (clean_request ''um hello world'' (JStr ''gpt-4o-mini''))],
        Inr (on_cleaning_complete cleaning_window ''Hello, world.''))
   \<and> WorkerThread_run failing_world (openai_service cleaning_window) clean_worker
     = ([ChatCompletionsCreate (OpenAI (JStr ''sk-1''))
           (clean_request ''um hello world'' (JStr ''gpt-4o-mini''))],
        [Error ''Error cleaning text: Connection error.''])
   \<and> finish failing_world cleaning_window clean_worker
     = ([ChatCompletionsCreate (OpenAI (JStr ''sk-1''))
           (clean_request ''um hello world'' (JStr ''gpt-4o-mini''))],
        Inr (on_error cleaning_window ''Error cleaning text: Connection error.''))
   \<and> MainWindow_generate_title example_window = Inr titling_window
   \<and> finish (example_world ''{\"title\": \"Notes\"}'') titling_window title_worker
     = ([ChatCompletionsCreate (OpenAI (JStr ''sk-1''))
           (title_request ''um hello world'' (JStr ''gpt-4o-mini''))],
        Inr (on_title_generation_complete titling_window (JStr ''Notes'', JStr ''untitled'')))
   \<and> finish failing_world titling_window title_worker
     = ([ChatCompletionsCreate (OpenAI (JStr ''sk-1''))
           (title_request ''um hello world'' (JStr ''gpt-4o-mini''))],
        Inr (on_error titling_window ''Error generating title: Connection error.''))"
proof -
  have tr: "MainWindow_transcribe_audio (select_audio_file example_window ''/tmp/a.mp3'')
              = Inr transcribing_window"
    "started transcribing_window
       = started (select_audio_file example_window ''/tmp/a.mp3'') @ [transcribe_worker]"
    by (simp_all add: MainWindow_transcribe_audio_def Let_def select_audio_file_def
        example_window_def fresh_window_def transcribing_window_def transcribe_worker_def
        get_openai_api_key_def get_whisper_model_def)
  have cl: "MainWindow_clean_text example_window = Inr cleaning_window"
    "started cleaning_window = started example_window @ [clean_worker]"
    by (simp_all add: MainWindow_clean_text_def Let_def example_window_def fresh_window_def
        cleaning_window_def clean_worker_def get_openai_api_key_def get_text_model_def)
  have ti: "MainWindow_generate_title example_window = Inr titling_window"
    "started titling_window = started example_window @ [title_worker]"
    by (simp_all add: MainWindow_generate_title_def Let_def example_window_def
        fresh_window_def titling_window_def title_worker_def get_openai_api_key_def
        get_text_model_def)
  have svc: "openai_service transcribing_window
               = \<lparr>api_key = JStr ''sk-1'', client = Some (OpenAI (JStr ''sk-1''))\<rparr>"
    "openai_service cleaning_window
               = \<lparr>api_key = JStr ''sk-1'', client = Some (OpenAI (JStr ''sk-1''))\<rparr>"
    "openai_service titling_window
               = \<lparr>api_key = JStr ''sk-1'', client = Some (OpenAI (JStr ''sk-1''))\<rparr>"
    by (simp_all add: transcribing_window_def cleaning_window_def titling_window_def
        select_audio_file_def example_window_def fresh_window_def)
  have tr_ok: "OpenAIService_transcribe_audio (example_world ''{}'')
                 (openai_service transcribing_window)
                 (fst (args transcribe_worker)) (snd (args transcribe_worker))
      = ([AudioTranscriptionsCreate (OpenAI (JStr ''sk-1'')) (JStr ''whisper-1'')
            [82, 73, 70, 70]], Inr ''hello world'')"
    by (simp add: svc OpenAIService_transcribe_audio_def transcribe_audio_try_def
        transcribe_worker_def example_world_def)
  have tr_no: "OpenAIService_transcribe_audio failing_world
                 (openai_service transcribing_window)
                 (fst (args transcribe_worker)) (snd (args transcribe_worker))
      = ([AudioTranscriptionsCreate (OpenAI (JStr ''sk-1'')) (JStr ''whisper-1'')
            [82, 73, 70, 70]],
         Inl (Raise Exception ''Error transcribing audio: Connection error.''))"
    by (simp add: svc OpenAIService_transcribe_audio_def transcribe_audio_try_def
        transcribe_worker_def failing_world_def)
  have cl_ok: "OpenAIService_clean_text (example_world ''{}'') (openai_service cleaning_window)
                 (fst (args clean_worker)) (snd (args clean_worker))
      = ([ChatCompletionsCreate (OpenAI (JStr ''sk-1''))
            (clean_request ''um hello world'' (JStr ''gpt-4o-mini''))],
         Inr ''Hello, world.'')"
    by (simp add: svc OpenAIService_clean_text_def clean_text_try_def clean_worker_def
        example_world_def clean_request_def)
  have cl_no: "OpenAIService_clean_text failing_world (openai_service cleaning_window)
                 (fst (args clean_worker)) (snd (args clean_worker))
      = ([ChatCompletionsCreate (OpenAI (JStr ''sk-1''))
            (clean_request ''um hello world'' (JStr ''gpt-4o-mini''))],
         Inl (Raise Exception ''Error cleaning text: Connection error.''))"
    by (simp add: svc OpenAIService_clean_text_def clean_text_try_def clean_worker_def
        failing_world_def)
  have ti_ok: "OpenAIService_generate_title (example_world ''{\"title\": \"Notes\"}'')
                 (openai_service titling_window)
                 (fst (args title_worker)) (snd (args title_worker))
      = ([ChatCompletionsCreate (OpenAI (JStr ''sk-1''))
            (title_request ''um hello world'' (JStr ''gpt-4o-mini''))],
         Inr (JStr ''Notes'', JStr ''untitled''))"
    by (simp add: svc OpenAIService_generate_title_def generate_title_try_def
        title_worker_def example_world_def title_request_def)
  have ti_no: "OpenAIService_generate_title failing_world (openai_service titling_window)
                 (fst (args title_worker)) (snd (args title_worker))
      = ([ChatCompletionsCreate (OpenAI (JStr ''sk-1''))
            (title_request ''um hello world'' (JStr ''gpt-4o-mini''))],
         Inl (Raise Exception ''Error generating title: Connection error.''))"
    by (simp add: svc OpenAIService_generate_title_def generate_title_try_def
        title_worker_def failing_world_def)
  from tr tr_ok
    one_completion_event [of "select_audio_file example_window ''/tmp/a.mp3''"
      transcribing_window transcribe_worker "example_world ''{}''"]
  have 1: "finish (example_world ''{}'') transcribing_window transcribe_worker
     = ([AudioTranscriptionsCreate (OpenAI (JStr ''sk-1'')) (JStr ''whisper-1'') [82, 73, 70, 70]],
        Inr (on_transcription_complete transcribing_window ''hello world''))"
    by simp
  from tr tr_no
    one_completion_event [of "select_audio_file example_window ''/tmp/a.mp3''"
      transcribing_window transcribe_worker failing_world]
  have 2: "finish failing_world transcribing_window transcribe_worker
     = ([AudioTranscriptionsCreate (OpenAI (JStr ''sk-1'')) (JStr ''whisper-1'') [82, 73, 70, 70]],
        Inr (on_error transcribing_window ''Error transcribing audio: Connection error.''))"
    by simp
  from cl cl_ok
    one_completion_event [of example_window cleaning_window clean_worker
      "example_world ''{}''"]
  have 3: "WorkerThread_run (example_world ''{}'') (openai_service cleaning_window) clean_worker
     = ([ChatCompletionsCreate (OpenAI (JStr ''sk-1''))
           (clean_request ''um hello world'' (JStr ''gpt-4o-mini''))],
        [Finished (PyStr ''Hello, world.'')])
   \<and> finish (example_world ''{}'') cleaning_window clean_worker
     = ([ChatCompletionsCreate (OpenAI (JStr ''sk-1''))
           (clean_request ''um hello world'' (JStr ''gpt-4o-mini''))],
        Inr (on_cleaning_complete cleaning_window ''Hello, world.''))"
    by simp
  from cl cl_no
    one_completion_event [of example_window cleaning_window clean_worker failing_world]
  have 4: "WorkerThread_run failing_world (openai_service cleaning_window) clean_worker
     = ([ChatCompletionsCreate (OpenAI (JStr ''sk-1''))
           (clean_request ''um hello world'' (JStr ''gpt-4o-mini''))],
        [Error ''Error cleaning text: Connection error.''])
   \<and> finish failing_world cleaning_window clean_worker
     = ([ChatCompletionsCreate (OpenAI (JStr ''sk-1''))
           (clean_request ''um hello world'' (JStr ''gpt-4o-mini''))],
        Inr (on_error cleaning_window ''Error cleaning text: Connection error.''))"
    by simp
  from ti ti_ok
    one_completion_event [of example_window titling_window title_worker
      "example_world ''{\"title\": \"Notes\"}''"]
  have 5: "finish (example_world ''{\"title\": \"Notes\"}'') titling_window title_worker
     = ([ChatCompletionsCreate (OpenAI (JStr ''sk-1''))
           (title_request ''um hello world'' (JStr ''gpt-4o-mini''))],
        Inr (on_title_generation_complete titling_window (JStr ''Notes'', JStr ''untitled'')))"
    by simp
  from ti ti_no
    one_completion_event [of example_window titling_window title_worker failing_world]
  have 6: "finish failing_world titling_window title_worker
     = ([ChatCompletionsCreate (OpenAI (JStr ''sk-1''))
           (title_request ''um hello world'' (JStr ''gpt-4o-mini''))],
        Inr (on_error titling_window ''Error generating title: Connection error.''))"
    by simp
  from tr(1) cl(1) ti(1) 1 2 3 4 5 6 show ?thesis by simp
qed

end
